theory Spec2Isabelle
  imports Main "HOL-Library.Word"
begin

section \<open>BitVault: the wallet and transaction integrity core\<close>

text \<open>
  A shallow embedding of the back end of BitVault: the Mongoose schemas of transactions
  and wallets (\<^verbatim>\<open>backend/src/models/Transaction.model.js\<close>) and the three services
  \<^verbatim>\<open>CryptoService\<close>, \<^verbatim>\<open>TransactionService\<close> and \<^verbatim>\<open>WalletService\<close>
  (\<^verbatim>\<open>backend/src/services/crypto.service.js\<close>). Of the two revisions of
  \<^verbatim>\<open>TransactionService\<close> in that file, the first is the one embedded; the second
  differs in the texts of its errors and accepts a cold-wallet key in WIF.

  Conventions of the embedding.
  \<^item> A JavaScript string is a \<open>string\<close>; a \<^verbatim>\<open>Buffer\<close> is a list of bytes.
  \<^item> A JavaScript number that holds a count of satoshis is an \<open>int\<close>: the values are
    integers far below \<open>2 ^ 53\<close>, where the arithmetic of doubles is exact.
  \<^item> \<^verbatim>\<open>null\<close> and \<^verbatim>\<open>undefined\<close> are \<open>None\<close>.
  \<^item> A thrown \<^verbatim>\<open>Error\<close> is the left summand of a result; the database is passed
    explicitly, and a failing operation returns the database as it is at the throw.
  \<^item> The primitives of the libraries (SHA-256, AES-256-GCM, secp256k1) and the values
    drawn from the random generator and the clock are parameters of the functions
    that use them.
\<close>

subsection \<open>Process environment\<close>

record env =
  ENCRYPTION_KEY :: "string option"
  INTEGRITY_SECRET :: "string option"
  BITCOIN_NETWORK :: "string option"

text \<open>\<^verbatim>\<open>a || b\<close> on values that are strings or undefined: the empty string is falsy.\<close>

definition js_or :: "string option \<Rightarrow> string option \<Rightarrow> string option" where
  "js_or a b = (case a of None \<Rightarrow> b | Some s \<Rightarrow> if s = [] then b else Some s)"

text \<open>String concatenation \<^verbatim>\<open>s + v\<close> renders an undefined \<^verbatim>\<open>v\<close> as \<^verbatim>\<open>undefined\<close>.\<close>

definition js_concat :: "string \<Rightarrow> string option \<Rightarrow> string" where
  "js_concat s v = s @ (case v of None \<Rightarrow> ''undefined'' | Some t \<Rightarrow> t)"

subsection \<open>\<^verbatim>\<open>JSON.stringify\<close>\<close>

definition hex_digit :: "nat \<Rightarrow> char" where
  "hex_digit d = (if d < 10 then char_of (48 + d) else char_of (87 + d))"

definition digit_char :: "nat \<Rightarrow> char" where
  "digit_char d = char_of (48 + d)"

fun nat_to_string :: "nat \<Rightarrow> string" where
  "nat_to_string n =
     (if n < 10 then [digit_char n]
      else nat_to_string (n div 10) @ [digit_char (n mod 10)])"

declare nat_to_string.simps [simp del]

text \<open>\<^verbatim>\<open>Number.prototype.toString\<close> on an integer (decimal below \<open>10 ^ 21\<close>).\<close>

definition number_to_string :: "int \<Rightarrow> string" where
  "number_to_string i =
     (if i < 0 then CHR ''-'' # nat_to_string (nat (- i)) else nat_to_string (nat i))"

text \<open>\<^verbatim>\<open>QuoteJSONString\<close>: the escapes of a string value.\<close>

definition json_escape_char :: "char \<Rightarrow> string" where
  "json_escape_char c =
     (let n = (of_char c :: nat) in
      if n = 34 then [CHR 0x5C, CHR 0x22]
      else if n = 92 then [CHR 0x5C, CHR 0x5C]
      else if n = 8 then [CHR 0x5C, CHR ''b'']
      else if n = 9 then [CHR 0x5C, CHR ''t'']
      else if n = 10 then [CHR 0x5C, CHR ''n'']
      else if n = 12 then [CHR 0x5C, CHR ''f'']
      else if n = 13 then [CHR 0x5C, CHR ''r'']
      else if n < 32 then [CHR 0x5C, CHR ''u'', CHR ''0'', CHR ''0'',
                           hex_digit (n div 16), hex_digit (n mod 16)]
      else [c])"

definition json_string :: "string \<Rightarrow> string" where
  "json_string s = CHR 0x22 # concat (map json_escape_char s) @ [CHR 0x22]"

definition json_string_or_null :: "string option \<Rightarrow> string" where
  "json_string_or_null v = (case v of None \<Rightarrow> ''null'' | Some s \<Rightarrow> json_string s)"

fun json_members :: "(string \<times> string) list \<Rightarrow> string" where
  "json_members [] = []"
| "json_members [(k, v)] = json_string k @ '':'' @ v"
| "json_members ((k, v) # kvs) = json_string k @ '':'' @ v @ '','' @ json_members kvs"

text \<open>An object literal whose members are given with their values already rendered.\<close>

definition json_object :: "(string \<times> string) list \<Rightarrow> string" where
  "json_object kvs = ''{'' @ json_members kvs @ ''}''"

subsection \<open>Buffers and their hexadecimal rendering\<close>

type_synonym byte = "8 word"

text \<open>\<^verbatim>\<open>buf.toString('hex')\<close>.\<close>

definition hex_encode_byte :: "byte \<Rightarrow> string" where
  "hex_encode_byte b = [hex_digit (unat b div 16), hex_digit (unat b mod 16)]"

definition hex_encode :: "byte list \<Rightarrow> string" where
  "hex_encode bs = concat (map hex_encode_byte bs)"

definition hex_value :: "char \<Rightarrow> nat option" where
  "hex_value c =
     (let n = (of_char c :: nat) in
      if 48 \<le> n \<and> n \<le> 57 then Some (n - 48)
      else if 97 \<le> n \<and> n \<le> 102 then Some (n - 87)
      else if 65 \<le> n \<and> n \<le> 70 then Some (n - 55)
      else None)"

text \<open>
  \<^verbatim>\<open>Buffer.from(s, 'hex')\<close>: pairs of digits are decoded until the first pair that is
  not hexadecimal; an odd last character is dropped.
\<close>

fun hex_decode :: "string \<Rightarrow> byte list" where
  "hex_decode (a # b # rest) =
     (case hex_value a of
        None \<Rightarrow> []
      | Some x \<Rightarrow> (case hex_value b of
          None \<Rightarrow> []
        | Some y \<Rightarrow> word_of_nat (16 * x + y) # hex_decode rest))"
| "hex_decode _ = []"

subsection \<open>The cryptographic libraries\<close>

datatype bitcoin_network = Mainnet | Testnet

text \<open>
  The functions of Node's \<^verbatim>\<open>crypto\<close>, of \<^verbatim>\<open>bitcoinjs-lib\<close> and of \<^verbatim>\<open>ecpair\<close> that
  the services call. A result \<open>None\<close> is a throw of the library.
  \<^item> \<open>sha256 s\<close>: \<^verbatim>\<open>createHash('sha256').update(s).digest()\<close>.
  \<^item> \<open>aes_gcm_cipher key iv text\<close>: \<^verbatim>\<open>createCipheriv('aes-256-gcm', key, iv)\<close>, then
    \<^verbatim>\<open>update(text, 'utf8', 'hex') + final('hex')\<close> and \<^verbatim>\<open>getAuthTag()\<close>.
  \<^item> \<open>aes_gcm_decipher key iv tag hex\<close>: \<^verbatim>\<open>createDecipheriv\<close>, \<^verbatim>\<open>setAuthTag(tag)\<close>, then
    \<^verbatim>\<open>update(hex, 'hex', 'utf8') + final('utf8')\<close>.
  \<^item> \<open>ec_private_ok d\<close>: \<^verbatim>\<open>ECPair.fromPrivateKey(d)\<close> does not throw;
    \<open>ec_publicKey d\<close> is the \<^verbatim>\<open>publicKey\<close> of that pair and \<open>ec_sign d h\<close> its
    \<^verbatim>\<open>sign(h)\<close>.
  \<^item> \<open>ec_public_ok q\<close>: \<^verbatim>\<open>ECPair.fromPublicKey(q)\<close> does not throw;
    \<open>ec_verify q h sig\<close> is the \<^verbatim>\<open>verify(h, sig)\<close> of that pair.
  \<^item> \<open>ec_toWIF\<close>, \<open>p2pkh_address\<close>: \<^verbatim>\<open>keyPair.toWIF()\<close> and
    \<^verbatim>\<open>payments.p2pkh({pubkey, network}).address\<close>.
  \<^item> \<open>toOutputScript_ok net a\<close>: \<^verbatim>\<open>address.toOutputScript(a, net)\<close> does not throw.
\<close>

record crypto_lib =
  sha256 :: "string \<Rightarrow> byte list"
  aes_gcm_cipher :: "byte list \<Rightarrow> byte list \<Rightarrow> string \<Rightarrow> (string \<times> byte list) option"
  aes_gcm_decipher :: "byte list \<Rightarrow> byte list \<Rightarrow> byte list \<Rightarrow> string \<Rightarrow> string option"
  ec_private_ok :: "byte list \<Rightarrow> bool"
  ec_publicKey :: "byte list \<Rightarrow> byte list"
  ec_sign :: "byte list \<Rightarrow> byte list \<Rightarrow> byte list"
  ec_public_ok :: "byte list \<Rightarrow> bool"
  ec_verify :: "byte list \<Rightarrow> byte list \<Rightarrow> byte list \<Rightarrow> bool option"
  ec_toWIF :: "bitcoin_network \<Rightarrow> byte list \<Rightarrow> string"
  p2pkh_address :: "bitcoin_network \<Rightarrow> byte list \<Rightarrow> string"
  toOutputScript_ok :: "bitcoin_network \<Rightarrow> string \<Rightarrow> bool"

subsection \<open>Errors\<close>

datatype error =
    KeyDerivationFailed
  | EncryptionFailed
  | DecryptionFailed
  | SigningFailed
  | SenderWalletNotFound
  | InvalidRecipientAddress
  | SameAddress
  | InsufficientBalance
  | PrivateKeyRequired
  | InvalidPrivateKey
  | WalletNotFound
  | ValidationError
  | DuplicateKey
  | StorageFailure
  | WalletCreationFailed error

fun succeeded :: "error + 'a \<Rightarrow> bool" where
  "succeeded (Inr _) = True"
| "succeeded (Inl _) = False"

subsection \<open>\<^verbatim>\<open>CryptoService\<close>\<close>

definition getNetworkName :: "env \<Rightarrow> string" where
  "getNetworkName e = (case js_or (BITCOIN_NETWORK e) (Some ''testnet'') of
                         Some n \<Rightarrow> n | None \<Rightarrow> ''testnet'')"

definition getNetwork :: "env \<Rightarrow> bitcoin_network" where
  "getNetwork e = (if getNetworkName e = ''mainnet'' then Mainnet else Testnet)"

record key_pair =
  kp_privateKey :: string
  kp_privateKeyWIF :: string
  kp_publicKey :: string
  kp_address :: string
  kp_network :: string

text \<open>
  \<^verbatim>\<open>generateKeyPair\<close>; \<open>d\<close> is the private key that \<^verbatim>\<open>ECPair.makeRandom\<close> draws.
\<close>

definition generateKeyPair :: "crypto_lib \<Rightarrow> env \<Rightarrow> byte list \<Rightarrow> key_pair" where
  "generateKeyPair lib e d =
     (let net = getNetwork e in
      \<lparr> kp_privateKey = hex_encode d,
        kp_privateKeyWIF = ec_toWIF lib net d,
        kp_publicKey = hex_encode (ec_publicKey lib d),
        kp_address = p2pkh_address lib net (ec_publicKey lib d),
        kp_network = getNetworkName e \<rparr>)"

text \<open>\<^verbatim>\<open>deriveKeyPair\<close>, returning the public key and the address.\<close>

definition deriveKeyPair :: "crypto_lib \<Rightarrow> env \<Rightarrow> string \<Rightarrow> error + (string \<times> string)" where
  "deriveKeyPair lib e privateKeyHex =
     (let net = getNetwork e;
          privateKeyBuffer = hex_decode privateKeyHex
      in if \<not> ec_private_ok lib privateKeyBuffer then Inl KeyDerivationFailed
         else Inr (hex_encode (ec_publicKey lib privateKeyBuffer),
                   p2pkh_address lib net (ec_publicKey lib privateKeyBuffer)))"

definition validateKeyPair :: "crypto_lib \<Rightarrow> env \<Rightarrow> string \<Rightarrow> string \<Rightarrow> bool" where
  "validateKeyPair lib e privateKeyHex addr =
     (case deriveKeyPair lib e privateKeyHex of
        Inr derived \<Rightarrow> snd derived = addr
      | Inl _ \<Rightarrow> False)"

text \<open>\<^verbatim>\<open>getEncryptionKey\<close>: \<open>None\<close> is the throw \<^verbatim>\<open>ENCRYPTION_KEY not configured\<close>.\<close>

definition getEncryptionKey :: "crypto_lib \<Rightarrow> env \<Rightarrow> byte list option" where
  "getEncryptionKey lib e =
     (case ENCRYPTION_KEY e of
        None \<Rightarrow> None
      | Some envKey \<Rightarrow> if envKey = [] then None else Some (sha256 lib envKey))"

record encrypted =
  encryptedData :: string
  enc_iv :: string
  enc_authTag :: string

text \<open>\<^verbatim>\<open>encryptPrivateKey\<close>; \<open>ivBytes\<close> is the value of \<^verbatim>\<open>crypto.randomBytes(16)\<close>.\<close>

definition encryptPrivateKey ::
  "crypto_lib \<Rightarrow> env \<Rightarrow> byte list \<Rightarrow> string \<Rightarrow> error + encrypted" where
  "encryptPrivateKey lib e ivBytes privateKey =
     (case getEncryptionKey lib e of
        None \<Rightarrow> Inl EncryptionFailed
      | Some key \<Rightarrow>
          (case aes_gcm_cipher lib key ivBytes privateKey of
             None \<Rightarrow> Inl EncryptionFailed
           | Some (enc, tag) \<Rightarrow>
               Inr \<lparr> encryptedData = enc,
                     enc_iv = hex_encode ivBytes,
                     enc_authTag = hex_encode tag \<rparr>))"

text \<open>
  \<^verbatim>\<open>decryptPrivateKey\<close>. The arguments come from a wallet document and may be null:
  \<^verbatim>\<open>Buffer.from(null, 'hex')\<close> throws inside the \<^verbatim>\<open>try\<close>.
\<close>

definition decryptPrivateKey ::
  "crypto_lib \<Rightarrow> env \<Rightarrow> string option \<Rightarrow> string option \<Rightarrow> string option \<Rightarrow> error + string" where
  "decryptPrivateKey lib e encData ivHex authTagHex =
     (case getEncryptionKey lib e of
        None \<Rightarrow> Inl DecryptionFailed
      | Some key \<Rightarrow>
          (case (ivHex, authTagHex, encData) of
             (Some i, Some t, Some d) \<Rightarrow>
               (case aes_gcm_decipher lib key (hex_decode i) (hex_decode t) d of
                  None \<Rightarrow> Inl DecryptionFailed
                | Some decrypted \<Rightarrow> Inr decrypted)
           | _ \<Rightarrow> Inl DecryptionFailed))"

record transaction_data =
  td_txId :: string
  td_fromAddress :: string
  td_toAddress :: string
  td_amount :: int
  td_fee :: int
  td_timestamp :: int
  td_previousTxHash :: "string option"

text \<open>\<^verbatim>\<open>JSON.stringify(transactionData)\<close>.\<close>

definition stringify_transaction_data :: "transaction_data \<Rightarrow> string" where
  "stringify_transaction_data d = json_object
     [(''txId'', json_string (td_txId d)),
      (''fromAddress'', json_string (td_fromAddress d)),
      (''toAddress'', json_string (td_toAddress d)),
      (''amount'', number_to_string (td_amount d)),
      (''fee'', number_to_string (td_fee d)),
      (''timestamp'', number_to_string (td_timestamp d)),
      (''previousTxHash'', json_string_or_null (td_previousTxHash d))]"

record signature_result =
  sr_signature :: string
  sr_txHash :: string
  sr_publicKey :: string

definition signTransaction ::
  "crypto_lib \<Rightarrow> string \<Rightarrow> transaction_data \<Rightarrow> error + signature_result" where
  "signTransaction lib privateKeyHex transactionData =
     (let privateKeyBuffer = hex_decode privateKeyHex
      in if \<not> ec_private_ok lib privateKeyBuffer then Inl SigningFailed
         else
           let txHash = sha256 lib (stringify_transaction_data transactionData);
               sig = ec_sign lib privateKeyBuffer txHash
           in Inr \<lparr> sr_signature = hex_encode sig,
                    sr_txHash = hex_encode txHash,
                    sr_publicKey = hex_encode (ec_publicKey lib privateKeyBuffer) \<rparr>)"

definition verifySignature ::
  "crypto_lib \<Rightarrow> string \<Rightarrow> string \<Rightarrow> transaction_data \<Rightarrow> bool" where
  "verifySignature lib publicKeyHex signatureHex transactionData =
     (let publicKeyBuffer = hex_decode publicKeyHex;
          sig = hex_decode signatureHex
      in if \<not> ec_public_ok lib publicKeyBuffer then False
         else
           let txHash = sha256 lib (stringify_transaction_data transactionData)
           in (case ec_verify lib publicKeyBuffer txHash sig of
                 None \<Rightarrow> False
               | Some b \<Rightarrow> b))"

definition validateAddress :: "crypto_lib \<Rightarrow> env \<Rightarrow> string \<Rightarrow> bool" where
  "validateAddress lib e a = toOutputScript_ok lib (getNetwork e) a"

subsection \<open>The wallet model\<close>

datatype storage_type = Hot | Cold

datatype wallet_status = Active | Frozen | Archived

fun storage_type_string :: "storage_type \<Rightarrow> string" where
  "storage_type_string Hot = ''hot''"
| "storage_type_string Cold = ''cold''"

record encryption_meta =
  iv :: "string option"
  authTag :: "string option"
  algorithm :: string

text \<open>
  A wallet document; \<open>wallet_id\<close> is its \<^verbatim>\<open>_id\<close> and \<open>user\<close> the \<^verbatim>\<open>_id\<close> of its owner.
  The paths \<^verbatim>\<open>pendingBalance\<close>, \<^verbatim>\<open>icon\<close>, \<^verbatim>\<open>metadata\<close>, \<^verbatim>\<open>tags\<close> and \<^verbatim>\<open>updatedAt\<close>,
  which no operation below reads, are left out. A date is its ISO rendering.
\<close>

record wallet =
  wallet_id :: nat
  user :: nat
  name :: string
  description :: string
  publicAddress :: string
  publicKey :: string
  storageType :: storage_type
  encryptedPrivateKey :: "string option"
  encryptionMeta :: encryption_meta
  balance :: int
  network :: string
  status :: wallet_status
  color :: string
  transactionCount :: int
  lastActivity :: string
  integrityHash :: string
  createdAt :: "string option"

text \<open>
  \<^verbatim>\<open>walletSchema.methods.generateIntegrityHash\<close>; \<open>now\<close> is the ISO rendering of
  \<^verbatim>\<open>new Date()\<close>, used when the document has no \<^verbatim>\<open>createdAt\<close>. \<open>wallet_hashInput\<close> is
  the string given to \<^verbatim>\<open>update\<close>.
\<close>

definition wallet_dataToHash :: "string \<Rightarrow> wallet \<Rightarrow> string" where
  "wallet_dataToHash now w = json_object
     [(''publicAddress'', json_string (publicAddress w)),
      (''publicKey'', json_string (publicKey w)),
      (''balance'', number_to_string (balance w)),
      (''storageType'', json_string (storage_type_string (storageType w))),
      (''createdAt'', json_string (case createdAt w of Some d \<Rightarrow> d | None \<Rightarrow> now))]"

definition wallet_hashInput :: "env \<Rightarrow> string \<Rightarrow> wallet \<Rightarrow> string" where
  "wallet_hashInput e now w =
     (let dataToHash = wallet_dataToHash now w;
          secret = js_or (INTEGRITY_SECRET e) (ENCRYPTION_KEY e)
      in js_concat dataToHash secret)"

definition wallet_generateIntegrityHash ::
  "crypto_lib \<Rightarrow> env \<Rightarrow> string \<Rightarrow> wallet \<Rightarrow> string" where
  "wallet_generateIntegrityHash lib e now w =
     hex_encode (sha256 lib (wallet_hashInput e now w))"

definition wallet_verifyIntegrity ::
  "crypto_lib \<Rightarrow> env \<Rightarrow> string \<Rightarrow> wallet \<Rightarrow> bool" where
  "wallet_verifyIntegrity lib e now w =
     (let currentHash = wallet_generateIntegrityHash lib e now w
      in integrityHash w = currentHash)"

subsection \<open>The transaction model\<close>

datatype tx_type = Send | Receive | Internal

datatype tx_status = Pending | Confirmed | Failed | Cancelled

fun tx_type_string :: "tx_type \<Rightarrow> string" where
  "tx_type_string Send = ''send''"
| "tx_type_string Receive = ''receive''"
| "tx_type_string Internal = ''internal''"

text \<open>
  A transaction document. The paths \<^verbatim>\<open>rawTransaction\<close>, \<^verbatim>\<open>metadata\<close>,
  \<^verbatim>\<open>errorMessage\<close> and \<^verbatim>\<open>updatedAt\<close>, which no operation below sets or reads, are
  left out.
\<close>

record transaction =
  tx_wallet :: nat
  tx_user :: nat
  txId :: string
  tx_type :: tx_type
  tx_status :: tx_status
  amount :: int
  fee :: int
  fromAddress :: string
  toAddress :: string
  balanceAfter :: int
  confirmations :: int
  blockNumber :: "int option"
  blockHash :: "string option"
  memo :: string
  signingMethod :: storage_type
  signature :: "string option"
  previousTxHash :: "string option"
  ipAddress :: "string option"
  userAgent :: "string option"
  confirmedAt :: "string option"
  tx_integrityHash :: string
  tx_createdAt :: "string option"

text \<open>
  \<^verbatim>\<open>crypto.randomBytes(n)\<close>: the first \<open>n\<close> bytes of the source of random bytes that
  the call draws from.
\<close>

definition randomBytes :: "nat \<Rightarrow> (nat \<Rightarrow> byte) \<Rightarrow> byte list" where
  "randomBytes n source = map source [0..<n]"

text \<open>\<^verbatim>\<open>transactionSchema.statics.generateTxId\<close>.\<close>

definition generateTxId :: "(nat \<Rightarrow> byte) \<Rightarrow> string" where
  "generateTxId source = hex_encode (randomBytes 32 source)"

text \<open>\<^verbatim>\<open>transactionSchema.methods.generateIntegrityHash\<close>.\<close>

definition transaction_dataToHash :: "string \<Rightarrow> transaction \<Rightarrow> string" where
  "transaction_dataToHash now t = json_object
     [(''txId'', json_string (txId t)),
      (''type'', json_string (tx_type_string (tx_type t))),
      (''amount'', number_to_string (amount t)),
      (''fee'', number_to_string (fee t)),
      (''fromAddress'', json_string (fromAddress t)),
      (''toAddress'', json_string (toAddress t)),
      (''balanceAfter'', number_to_string (balanceAfter t)),
      (''previousTxHash'', json_string_or_null (previousTxHash t)),
      (''createdAt'', json_string (case tx_createdAt t of Some d \<Rightarrow> d | None \<Rightarrow> now))]"

definition transaction_generateIntegrityHash ::
  "crypto_lib \<Rightarrow> env \<Rightarrow> string \<Rightarrow> transaction \<Rightarrow> string" where
  "transaction_generateIntegrityHash lib e now t =
     hex_encode (sha256 lib (js_concat (transaction_dataToHash now t) (ENCRYPTION_KEY e)))"

definition transaction_verifyIntegrity ::
  "crypto_lib \<Rightarrow> env \<Rightarrow> string \<Rightarrow> transaction \<Rightarrow> bool" where
  "transaction_verifyIntegrity lib e now t =
     (let currentHash = transaction_generateIntegrityHash lib e now t
      in tx_integrityHash t = currentHash)"

subsection \<open>The database\<close>

text \<open>
  The two collections, each in insertion order, which is the order of \<^verbatim>\<open>createdAt\<close>.
\<close>

record db =
  wallets :: "wallet list"
  transactions :: "transaction list"

text \<open>
  The four writes of a send. \<open>storage_ok\<close> tells, for each of them, whether the
  database accepts it; a write that it rejects throws and stores nothing.
\<close>

datatype write_op = WriteSendRecord | WriteSenderDebit | WriteReceiveRecord | WriteRecipientCredit

definition is_space :: "char \<Rightarrow> bool" where
  "is_space c = ((of_char c :: nat) \<in> {9, 10, 11, 12, 13, 32, 160})"

text \<open>\<^verbatim>\<open>String.prototype.trim\<close>, the setter of a schema path with \<^verbatim>\<open>trim: true\<close>.\<close>

definition trim :: "string \<Rightarrow> string" where
  "trim s = rev (dropWhile is_space (rev (dropWhile is_space s)))"

text \<open>\<^verbatim>\<open>transactionSchema.statics.generateChainHash\<close>.\<close>

definition generateChainHash :: "db \<Rightarrow> nat \<Rightarrow> string option" where
  "generateChainHash d walletId =
     (case filter (\<lambda>t. tx_wallet t = walletId) (transactions d) of
        [] \<Rightarrow> None
      | ts \<Rightarrow> Some (tx_integrityHash (last ts)))"

text \<open>
  \<^verbatim>\<open>Transaction.create\<close>: the validators of the schema, the timestamps, the
  \<^verbatim>\<open>pre('save')\<close> hook that sets the integrity hash of a new document, and the insert
  under the unique index on \<^verbatim>\<open>txId\<close>.
\<close>

definition transaction_valid :: "transaction \<Rightarrow> bool" where
  "transaction_valid t \<longleftrightarrow>
     txId t \<noteq> [] \<and> 1 \<le> amount t \<and> 0 \<le> fee t \<and> fromAddress t \<noteq> [] \<and> toAddress t \<noteq> []
     \<and> 0 \<le> confirmations t \<and> length (memo t) \<le> 500"

definition Transaction_create ::
  "crypto_lib \<Rightarrow> env \<Rightarrow> string \<Rightarrow> bool \<Rightarrow> transaction \<Rightarrow> db \<Rightarrow> (error + transaction) \<times> db" where
  "Transaction_create lib e now accepted doc d =
     (let t0 = doc\<lparr>memo := trim (memo doc)\<rparr> in
      if \<not> transaction_valid t0 then (Inl ValidationError, d)
      else
        let t1 = t0\<lparr>tx_createdAt := Some now\<rparr>;
            t2 = t1\<lparr>tx_integrityHash := transaction_generateIntegrityHash lib e now t1\<rparr>
        in if \<not> accepted then (Inl StorageFailure, d)
           else if txId t2 \<in> set (map txId (transactions d)) then (Inl DuplicateKey, d)
           else (Inr t2, d\<lparr>transactions := transactions d @ [t2]\<rparr>))"

subsection \<open>\<^verbatim>\<open>WalletService\<close>\<close>

definition findById :: "db \<Rightarrow> nat \<Rightarrow> wallet option" where
  "findById d i = find (\<lambda>w. wallet_id w = i) (wallets d)"

definition getWalletByAddress :: "db \<Rightarrow> string \<Rightarrow> wallet option" where
  "getWalletByAddress d a = find (\<lambda>w. publicAddress w = a) (wallets d)"

fun replace_wallet :: "wallet \<Rightarrow> wallet list \<Rightarrow> wallet list" where
  "replace_wallet w' [] = []"
| "replace_wallet w' (w # ws) =
     (if wallet_id w = wallet_id w' then w' # ws else w # replace_wallet w' ws)"

text \<open>
  \<^verbatim>\<open>wallet.save()\<close> on a loaded document \<open>old\<close> changed into \<open>new\<close>: the validator of
  the modified \<^verbatim>\<open>balance\<close>, the \<^verbatim>\<open>pre('save')\<close> hook, which rewrites the integrity hash
  when \<^verbatim>\<open>balance\<close> or \<^verbatim>\<open>publicAddress\<close> is modified, and the update of the document.
\<close>

definition wallet_save ::
  "crypto_lib \<Rightarrow> env \<Rightarrow> string \<Rightarrow> bool \<Rightarrow> wallet \<Rightarrow> wallet \<Rightarrow> db \<Rightarrow> (error + wallet) \<times> db" where
  "wallet_save lib e now accepted old new d =
     (if balance new \<noteq> balance old \<and> balance new < 0 then (Inl ValidationError, d)
      else
        let w = (if balance new \<noteq> balance old \<or> publicAddress new \<noteq> publicAddress old
                 then new\<lparr>integrityHash := wallet_generateIntegrityHash lib e now new\<rparr>
                 else new)
        in if \<not> accepted then (Inl StorageFailure, d)
           else (Inr w, d\<lparr>wallets := replace_wallet w (wallets d)\<rparr>))"

datatype operation = Subtract | Add

definition updateBalance ::
  "crypto_lib \<Rightarrow> env \<Rightarrow> string \<Rightarrow> bool \<Rightarrow> nat \<Rightarrow> int \<Rightarrow> operation \<Rightarrow> db \<Rightarrow> (error + wallet) \<times> db" where
  "updateBalance lib e now accepted walletId amt oper d =
     (case findById d walletId of
        None \<Rightarrow> (Inl WalletNotFound, d)
      | Some w \<Rightarrow>
          if oper = Subtract \<and> balance w < amt then (Inl InsufficientBalance, d)
          else
            let b = (case oper of Subtract \<Rightarrow> balance w - amt | Add \<Rightarrow> balance w + amt);
                w' = w\<lparr>balance := b, lastActivity := now,
                       transactionCount := transactionCount w + 1\<rparr>
            in wallet_save lib e now accepted w w' d)"

definition validatePrivateKeyForWallet :: "crypto_lib \<Rightarrow> env \<Rightarrow> string \<Rightarrow> string \<Rightarrow> bool" where
  "validatePrivateKeyForWallet lib e privateKey addr = validateKeyPair lib e privateKey addr"

definition colors :: "string list" where
  "colors = [''#F7931A'', ''#627EEA'', ''#26A17B'', ''#8247E5'',
             ''#E84142'', ''#2775CA'', ''#F0B90B'', ''#00D395'']"

text \<open>
  \<^verbatim>\<open>generateRandomColor\<close>; \<open>k\<close> is \<^verbatim>\<open>Math.floor(Math.random() * colors.length)\<close>. An
  index out of range would give \<^verbatim>\<open>undefined\<close>, hence the default of the schema.
\<close>

definition generateRandomColor :: "nat \<Rightarrow> string" where
  "generateRandomColor k = (if k < length colors then colors ! k else ''#F7931A'')"

text \<open>
  An argument that the caller may leave out, pass as \<^verbatim>\<open>null\<close> or give: a default
  parameter value replaces \<^verbatim>\<open>undefined\<close> only.
\<close>

datatype 'a js_arg = Undefined | Null | Given 'a

record create_wallet_request =
  cw_userId :: nat
  cw_name :: string
  cw_description :: "string option"
  cw_storageType :: "string js_arg"
  cw_color :: "string option"

text \<open>
  What one wallet creation draws: the private key of \<^verbatim>\<open>ECPair.makeRandom\<close>, the IV of
  \<^verbatim>\<open>randomBytes(16)\<close>, the index of the random colour, the \<^verbatim>\<open>_id\<close> of the new document
  and the date.
\<close>

record wallet_draws =
  wd_privateKey :: "byte list"
  wd_iv :: "byte list"
  wd_color :: nat
  wd_id :: nat
  wd_now :: string

record create_wallet_response =
  cwr_wallet :: wallet
  cwr_message :: string
  cwr_privateKey :: "string option"
  cwr_privateKeyWIF :: "string option"

definition parse_storageType :: "string \<Rightarrow> storage_type option" where
  "parse_storageType s =
     (if s = ''hot'' then Some Hot else if s = ''cold'' then Some Cold else None)"

text \<open>
  \<^verbatim>\<open>Wallet.create(walletData)\<close>: the validators of the schema, the defaults, the
  timestamps, the \<^verbatim>\<open>pre('save')\<close> hook and the insert under the unique indexes on
  \<^verbatim>\<open>_id\<close> and \<^verbatim>\<open>publicAddress\<close>. \<open>enc\<close> is \<^verbatim>\<open>walletData.encryptedPrivateKey\<close> with
  \<^verbatim>\<open>walletData.encryptionMeta\<close>, when they were set. \<open>stType\<close> is
  \<^verbatim>\<open>walletData.storageType\<close>: a \<^verbatim>\<open>null\<close> fails the validator of the required path, a
  string outside the enumeration that of the enumeration.
\<close>

definition Wallet_create ::
  "crypto_lib \<Rightarrow> env \<Rightarrow> wallet_draws \<Rightarrow> nat \<Rightarrow> string \<Rightarrow> string \<Rightarrow> key_pair \<Rightarrow>
   string option \<Rightarrow> string \<Rightarrow> encrypted option \<Rightarrow> db \<Rightarrow> (error + wallet) \<times> db" where
  "Wallet_create lib e drw userId nm descr keyPair stType col enc d =
     (case Option.bind stType parse_storageType of
        None \<Rightarrow> (Inl ValidationError, d)
      | Some st \<Rightarrow>
          if trim nm = [] \<or> 100 < length (trim nm) \<or> 500 < length (trim descr)
             \<or> kp_address keyPair = [] \<or> kp_publicKey keyPair = []
             \<or> kp_network keyPair \<notin> {''mainnet'', ''testnet'', ''regtest''}
          then (Inl ValidationError, d)
          else
            let w0 = \<lparr> wallet_id = wd_id drw,
                       user = userId,
                       name = trim nm,
                       description = trim descr,
                       publicAddress = kp_address keyPair,
                       publicKey = kp_publicKey keyPair,
                       storageType = st,
                       encryptedPrivateKey = map_option encryptedData enc,
                       encryptionMeta =
                         (case enc of
                            None \<Rightarrow> \<lparr> iv = None, authTag = None, algorithm = ''aes-256-gcm'' \<rparr>
                          | Some x \<Rightarrow> \<lparr> iv = Some (enc_iv x), authTag = Some (enc_authTag x),
                                        algorithm = ''aes-256-gcm'' \<rparr>),
                       balance = 100000000,
                       network = kp_network keyPair,
                       status = Active,
                       color = col,
                       transactionCount = 0,
                       lastActivity = wd_now drw,
                       integrityHash = [],
                       createdAt = Some (wd_now drw) \<rparr>;
                w1 = w0\<lparr>integrityHash := wallet_generateIntegrityHash lib e (wd_now drw) w0\<rparr>
            in if wallet_id w1 \<in> set (map wallet_id (wallets d))
                  \<or> publicAddress w1 \<in> set (map publicAddress (wallets d))
               then (Inl DuplicateKey, d)
               else (Inr w1, d\<lparr>wallets := wallets d @ [w1]\<rparr>))"

text \<open>
  \<^verbatim>\<open>createWallet\<close> from the key pair on: the body of the \<^verbatim>\<open>try\<close> after
  \<^verbatim>\<open>cryptoService.generateKeyPair()\<close> has returned \<open>keyPair\<close>.
\<close>

definition createWallet_with ::
  "crypto_lib \<Rightarrow> env \<Rightarrow> wallet_draws \<Rightarrow> create_wallet_request \<Rightarrow> key_pair \<Rightarrow> db \<Rightarrow>
   (error + create_wallet_response) \<times> db" where
  "createWallet_with lib e drw req keyPair d =
     (let stType = (case cw_storageType req of
                      Undefined \<Rightarrow> Some ''hot'' | Null \<Rightarrow> None | Given s \<Rightarrow> Some s);
          descr = (case js_or (cw_description req) (Some []) of Some s \<Rightarrow> s | None \<Rightarrow> []);
          col = (case js_or (cw_color req) None of
                   Some c \<Rightarrow> c | None \<Rightarrow> generateRandomColor (wd_color drw));
          encR = (if stType = Some ''hot''
                  then map_sum id Some (encryptPrivateKey lib e (wd_iv drw) (kp_privateKey keyPair))
                  else Inr None)
      in case encR of
           Inl err \<Rightarrow> (Inl (WalletCreationFailed err), d)
         | Inr enc \<Rightarrow>
             (case Wallet_create lib e drw (cw_userId req) (cw_name req) descr keyPair
                     stType col enc d of
                (Inl err, d') \<Rightarrow> (Inl (WalletCreationFailed err), d')
              | (Inr w, d') \<Rightarrow>
                  (Inr \<lparr> cwr_wallet = w,
                         cwr_message =
                           (if stType = Some ''cold''
                            then ''IMPORTANT: Save your private key securely. It will NEVER be shown again!''
                            else ''Wallet created successfully. Private key is securely encrypted.''),
                         cwr_privateKey =
                           (if stType = Some ''cold'' then Some (kp_privateKey keyPair) else None),
                         cwr_privateKeyWIF =
                           (if stType = Some ''cold'' then Some (kp_privateKeyWIF keyPair)
                            else None) \<rparr>,
                   d')))"

definition createWallet ::
  "crypto_lib \<Rightarrow> env \<Rightarrow> wallet_draws \<Rightarrow> create_wallet_request \<Rightarrow> db \<Rightarrow>
   (error + create_wallet_response) \<times> db" where
  "createWallet lib e drw req d =
     createWallet_with lib e drw req (generateKeyPair lib e (wd_privateKey drw)) d"

subsection \<open>\<^verbatim>\<open>TransactionService\<close>\<close>

record send_request =
  req_userId :: nat
  req_walletId :: nat
  req_toAddress :: string
  req_amount :: int
  req_memo :: string
  req_privateKey :: "string option"
  req_ipAddress :: "string option"
  req_userAgent :: "string option"

text \<open>
  What one send draws: the source of random bytes for the transaction id, the
  value of \<^verbatim>\<open>Math.floor(Math.random() * 1000000)\<close>, the bytes of the block hash, the
  value of \<^verbatim>\<open>Date.now()\<close> and the date of the operation.
\<close>

record draws =
  drawn_txId :: "nat \<Rightarrow> byte"
  drawn_block :: int
  drawn_blockHash :: "byte list"
  drawn_timestamp :: int
  drawn_now :: string

text \<open>
  What \<^verbatim>\<open>createTransaction\<close> returns; \<^verbatim>\<open>newBalanceBTC\<close>, the new balance divided by
  \<open>10 ^ 8\<close> as a floating-point number, is left out.
\<close>

record send_result =
  res_transaction :: transaction
  res_message :: string
  res_newBalance :: int

text \<open>\<^verbatim>\<open>Wallet.findOne({ _id: walletId, user: userId, status: 'active' })\<close>.\<close>

definition findActiveWallet :: "db \<Rightarrow> nat \<Rightarrow> nat \<Rightarrow> wallet option" where
  "findActiveWallet d walletId userId =
     find (\<lambda>w. wallet_id w = walletId \<and> user w = userId \<and> status w = Active) (wallets d)"

text \<open>The signing key of a send: the part "Get private key based on storage type".\<close>

definition signing_key ::
  "crypto_lib \<Rightarrow> env \<Rightarrow> wallet \<Rightarrow> string option \<Rightarrow> error + string" where
  "signing_key lib e senderWallet privateKey =
     (if storageType senderWallet = Hot
      then decryptPrivateKey lib e (encryptedPrivateKey senderWallet)
             (iv (encryptionMeta senderWallet)) (authTag (encryptionMeta senderWallet))
      else
        (case privateKey of
           None \<Rightarrow> Inl PrivateKeyRequired
         | Some k \<Rightarrow>
             if k = [] then Inl PrivateKeyRequired
             else if \<not> validatePrivateKeyForWallet lib e k (publicAddress senderWallet)
             then Inl InvalidPrivateKey
             else Inr k))"

text \<open>The document given to the first \<^verbatim>\<open>Transaction.create\<close>.\<close>

definition send_record ::
  "draws \<Rightarrow> send_request \<Rightarrow> wallet \<Rightarrow> string \<Rightarrow> int \<Rightarrow> int \<Rightarrow> string \<Rightarrow> string option \<Rightarrow>
   transaction" where
  "send_record drw req senderWallet tid theFee newBalance sig prevHash =
     \<lparr> tx_wallet = req_walletId req,
       tx_user = req_userId req,
       txId = tid,
       tx_type = Send,
       tx_status = Confirmed,
       amount = req_amount req,
       fee = theFee,
       fromAddress = publicAddress senderWallet,
       toAddress = req_toAddress req,
       balanceAfter = newBalance,
       confirmations = 6,
       blockNumber = Some (drawn_block drw + 800000),
       blockHash = Some (hex_encode (drawn_blockHash drw)),
       memo = req_memo req,
       signingMethod = storageType senderWallet,
       signature = Some sig,
       previousTxHash = prevHash,
       ipAddress = req_ipAddress req,
       userAgent = req_userAgent req,
       confirmedAt = Some (drawn_now drw),
       tx_integrityHash = [],
       tx_createdAt = None \<rparr>"

text \<open>The document given to the second \<^verbatim>\<open>Transaction.create\<close>, for the recipient.\<close>

definition receive_record ::
  "draws \<Rightarrow> send_request \<Rightarrow> wallet \<Rightarrow> wallet \<Rightarrow> transaction \<Rightarrow> string \<Rightarrow> string option \<Rightarrow>
   transaction" where
  "receive_record drw req senderWallet recipientWallet sent tid prevHash =
     \<lparr> tx_wallet = wallet_id recipientWallet,
       tx_user = user recipientWallet,
       txId = tid @ ''-receive'',
       tx_type = Receive,
       tx_status = Confirmed,
       amount = req_amount req,
       fee = 0,
       fromAddress = publicAddress senderWallet,
       toAddress = req_toAddress req,
       balanceAfter = balance recipientWallet + req_amount req,
       confirmations = 6,
       blockNumber = blockNumber sent,
       blockHash = blockHash sent,
       memo = ''Received from '' @ take 8 (publicAddress senderWallet) @ ''...'',
       signingMethod = storageType senderWallet,
       signature = None,
       previousTxHash = prevHash,
       ipAddress = None,
       userAgent = None,
       confirmedAt = Some (drawn_now drw),
       tx_integrityHash = [],
       tx_createdAt = None \<rparr>"

text \<open>
  The end of \<^verbatim>\<open>createTransaction\<close>, from "Check if recipient wallet exists in our
  system": the mirrored record and the credit of a recipient that is a wallet of the
  system.
\<close>

definition credit_recipient ::
  "crypto_lib \<Rightarrow> env \<Rightarrow> draws \<Rightarrow> (write_op \<Rightarrow> bool) \<Rightarrow> send_request \<Rightarrow> wallet \<Rightarrow>
   transaction \<Rightarrow> string \<Rightarrow> db \<Rightarrow> (error + unit) \<times> db" where
  "credit_recipient lib e drw storage_ok req senderWallet sent tid d =
     (case getWalletByAddress d (req_toAddress req) of
        None \<Rightarrow> (Inr (), d)
      | Some recipientWallet \<Rightarrow>
          (case Transaction_create lib e (drawn_now drw) (storage_ok WriteReceiveRecord)
                  (receive_record drw req senderWallet recipientWallet sent tid
                     (generateChainHash d (wallet_id recipientWallet))) d of
             (Inl err, d1) \<Rightarrow> (Inl err, d1)
           | (Inr _, d1) \<Rightarrow>
               (case updateBalance lib e (drawn_now drw) (storage_ok WriteRecipientCredit)
                       (wallet_id recipientWallet) (req_amount req) Add d1 of
                  (Inl err, d2) \<Rightarrow> (Inl err, d2)
                | (Inr _, d2) \<Rightarrow> (Inr (), d2))))"

text \<open>
  \<^verbatim>\<open>createTransaction\<close>. The result pairs what the call returns or throws with the
  database it leaves.
\<close>

definition createTransaction ::
  "crypto_lib \<Rightarrow> env \<Rightarrow> draws \<Rightarrow> (write_op \<Rightarrow> bool) \<Rightarrow> send_request \<Rightarrow> db \<Rightarrow>
   (error + send_result) \<times> db" where
  "createTransaction lib e drw storage_ok req d =
     (case findActiveWallet d (req_walletId req) (req_userId req) of
        None \<Rightarrow> (Inl SenderWalletNotFound, d)
      | Some senderWallet \<Rightarrow>
          if \<not> validateAddress lib e (req_toAddress req) then (Inl InvalidRecipientAddress, d)
          else if publicAddress senderWallet = req_toAddress req then (Inl SameAddress, d)
          else
            let theFee = 10000;
                totalAmount = req_amount req + theFee
            in
            if balance senderWallet < totalAmount then (Inl InsufficientBalance, d)
            else
              (case signing_key lib e senderWallet (req_privateKey req) of
                 Inl err \<Rightarrow> (Inl err, d)
               | Inr signingKey \<Rightarrow>
                   let tid = generateTxId (drawn_txId drw);
                       prevHash = generateChainHash d (req_walletId req);
                       transactionData =
                         \<lparr> td_txId = tid,
                           td_fromAddress = publicAddress senderWallet,
                           td_toAddress = req_toAddress req,
                           td_amount = req_amount req,
                           td_fee = theFee,
                           td_timestamp = drawn_timestamp drw,
                           td_previousTxHash = prevHash \<rparr>
                   in
                   (case signTransaction lib signingKey transactionData of
                      Inl err \<Rightarrow> (Inl err, d)
                    | Inr signatureResult \<Rightarrow>
                        let newBalance = balance senderWallet - totalAmount in
                        (case Transaction_create lib e (drawn_now drw) (storage_ok WriteSendRecord)
                                (send_record drw req senderWallet tid theFee newBalance
                                   (sr_signature signatureResult) prevHash) d of
                           (Inl err, d1) \<Rightarrow> (Inl err, d1)
                         | (Inr sent, d1) \<Rightarrow>
                             (case updateBalance lib e (drawn_now drw) (storage_ok WriteSenderDebit)
                                     (req_walletId req) totalAmount Subtract d1 of
                                (Inl err, d2) \<Rightarrow> (Inl err, d2)
                              | (Inr _, d2) \<Rightarrow>
                                  (case credit_recipient lib e drw storage_ok req senderWallet
                                          sent tid d2 of
                                     (Inl err, d3) \<Rightarrow> (Inl err, d3)
                                   | (Inr _, d3) \<Rightarrow>
                                       (Inr \<lparr> res_transaction = sent,
                                              res_message = ''Transaction completed successfully'',
                                              res_newBalance = newBalance \<rparr>,
                                        d3)))))))"

record chain_entry =
  ce_txId :: string
  integrityValid :: bool
  chainLinkValid :: bool
  ce_createdAt :: "string option"

record chain_report =
  cr_walletId :: nat
  totalTransactions :: nat
  chainValid :: bool
  results :: "chain_entry list"
  cr_message :: string

text \<open>
  The loop of \<^verbatim>\<open>verifyTransactionChain\<close> over the transactions that are left, with
  its three variables \<^verbatim>\<open>previousHash\<close>, \<^verbatim>\<open>chainValid\<close> and \<^verbatim>\<open>results\<close>.
\<close>

fun verify_loop ::
  "crypto_lib \<Rightarrow> env \<Rightarrow> string \<Rightarrow> transaction list \<Rightarrow> string option \<Rightarrow> bool \<Rightarrow>
   chain_entry list \<Rightarrow> bool \<times> chain_entry list" where
  "verify_loop lib e now [] previousHash valid res = (valid, res)"
| "verify_loop lib e now (tx # txs) previousHash valid res =
     (let iValid = transaction_verifyIntegrity lib e now tx;
          linkValid = (previousHash = None \<or> previousTxHash tx = previousHash);
          valid' = (if \<not> iValid \<or> \<not> linkValid then False else valid);
          res' = res @ [\<lparr> ce_txId = txId tx, integrityValid = iValid,
                           chainLinkValid = linkValid, ce_createdAt = tx_createdAt tx \<rparr>]
      in verify_loop lib e now txs (Some (tx_integrityHash tx)) valid' res')"

definition verifyTransactionChain ::
  "crypto_lib \<Rightarrow> env \<Rightarrow> string \<Rightarrow> db \<Rightarrow> nat \<Rightarrow> nat \<Rightarrow> error + chain_report" where
  "verifyTransactionChain lib e now d walletId userId =
     (case find (\<lambda>w. wallet_id w = walletId \<and> user w = userId) (wallets d) of
        None \<Rightarrow> Inl WalletNotFound
      | Some _ \<Rightarrow>
          let txs = filter (\<lambda>t. tx_wallet t = walletId) (transactions d);
              (valid, res) = verify_loop lib e now txs None True []
          in Inr \<lparr> cr_walletId = walletId,
                   totalTransactions = length txs,
                   chainValid = valid,
                   results = res,
                   cr_message =
                     (if valid then ''All transactions verified. Chain integrity intact.''
                      else ''WARNING: Transaction chain integrity compromised!'') \<rparr>)"

subsection \<open>Notions used in the statements\<close>

text \<open>The stored balance of the wallet with a given id.\<close>

definition balance_of :: "db \<Rightarrow> nat \<Rightarrow> int option" where
  "balance_of d i = map_option balance (findById d i)"

text \<open>Two different inputs of SHA-256 with the same digest.\<close>

definition collides :: "crypto_lib \<Rightarrow> string \<Rightarrow> string \<Rightarrow> bool" where
  "collides lib x y \<longleftrightarrow> x \<noteq> y \<and> sha256 lib x = sha256 lib y"

text \<open>
  What the services rely on from the libraries. AES-256-GCM: deciphering, under the
  same key and IV and with the tag that the cipher returned, gives the text back.
  ECDSA: the public key of a valid private key is accepted, and a signature made with
  the private key verifies under it.
\<close>

definition aes_gcm_correct :: "crypto_lib \<Rightarrow> bool" where
  "aes_gcm_correct lib \<longleftrightarrow>
     (\<forall>key i text enc tag. aes_gcm_cipher lib key i text = Some (enc, tag)
        \<longrightarrow> aes_gcm_decipher lib key i tag enc = Some text)"

definition ecdsa_correct :: "crypto_lib \<Rightarrow> bool" where
  "ecdsa_correct lib \<longleftrightarrow>
     (\<forall>d h. ec_private_ok lib d
        \<longrightarrow> ec_public_ok lib (ec_publicKey lib d)
            \<and> ec_verify lib (ec_publicKey lib d) h (ec_sign lib d h) = Some True)"

subsection \<open>An instance of the libraries, to run the model\<close>

text \<open>
  Small functions with the interface of the libraries: a two-byte checksum for the
  digest, a cipher that authenticates the key and the IV and leaves the text as it is,
  and a key pair whose public key is the private key behind a marker byte. They serve
  to evaluate the services on concrete wallets; no property of the real primitives is
  taken from them.
\<close>

definition run_lib :: crypto_lib where
  "run_lib =
     \<lparr> sha256 = (\<lambda>s. [word_of_nat (length s), word_of_nat (sum_list (map of_char s))]),
       aes_gcm_cipher = (\<lambda>key i text. Some (text, key @ i)),
       aes_gcm_decipher = (\<lambda>key i tag hex. if tag = key @ i then Some hex else None),
       ec_private_ok = (\<lambda>d. d \<noteq> []),
       ec_publicKey = (\<lambda>d. 2 # d),
       ec_sign = (\<lambda>d h. d @ h),
       ec_public_ok = (\<lambda>q. q \<noteq> []),
       ec_verify = (\<lambda>q h sig. Some (sig = tl q @ h)),
       ec_toWIF = (\<lambda>net d. ''c'' @ hex_encode d),
       p2pkh_address = (\<lambda>net q. (case net of Mainnet \<Rightarrow> ''1'' | Testnet \<Rightarrow> ''m'') @ hex_encode q),
       toOutputScript_ok = (\<lambda>net a. case a of [] \<Rightarrow> False
                              | c # _ \<Rightarrow> c = (case net of Mainnet \<Rightarrow> CHR ''1'' | Testnet \<Rightarrow> CHR ''m'')) \<rparr>"

text \<open>
  A second instance, whose public key reads the first byte of the private key only, so
  that two private keys have the same public key.
\<close>

definition first_byte_lib :: crypto_lib where
  "first_byte_lib = run_lib\<lparr> ec_publicKey := (\<lambda>d. [2, hd d]) \<rparr>"

definition run_env :: env where
  "run_env = \<lparr> ENCRYPTION_KEY = Some ''k'', INTEGRITY_SECRET = None, BITCOIN_NETWORK = None \<rparr>"

definition run_wallet_draws :: "nat \<Rightarrow> byte list \<Rightarrow> wallet_draws" where
  "run_wallet_draws i d =
     \<lparr> wd_privateKey = d, wd_iv = [7, 7], wd_color = 3, wd_id = i,
       wd_now = ''2024-01-01T00:00:00.000Z'' \<rparr>"

definition run_create_request :: "string \<Rightarrow> create_wallet_request" where
  "run_create_request st =
     \<lparr> cw_userId = 1, cw_name = ''w'', cw_description = None,
       cw_storageType = Given st, cw_color = None \<rparr>"

definition empty_db :: db where
  "empty_db = \<lparr> wallets = [], transactions = [] \<rparr>"

text \<open>
  The wallets that \<^verbatim>\<open>createWallet\<close> stores on these draws: a hot wallet, a second
  hot wallet, and a cold wallet.
\<close>

definition hot_wallet :: wallet where
  "hot_wallet =
     \<lparr> wallet_id = 1, user = 1, name = ''w'', description = [],
       publicAddress = ''m0201'', publicKey = ''0201'', storageType = Hot,
       encryptedPrivateKey = Some ''01'',
       encryptionMeta = \<lparr> iv = Some ''0707'', authTag = Some ''016b0707'',
                          algorithm = ''aes-256-gcm'' \<rparr>,
       balance = 100000000, network = ''testnet'', status = Active,
       color = ''#8247E5'', transactionCount = 0,
       lastActivity = ''2024-01-01T00:00:00.000Z'',
       integrityHash = ''7c43'',
       createdAt = Some ''2024-01-01T00:00:00.000Z'' \<rparr>"

definition peer_wallet :: wallet where
  "peer_wallet =
     \<lparr> wallet_id = 2, user = 1, name = ''w'', description = [],
       publicAddress = ''m0202'', publicKey = ''0202'', storageType = Hot,
       encryptedPrivateKey = Some ''02'',
       encryptionMeta = \<lparr> iv = Some ''0707'', authTag = Some ''016b0707'',
                          algorithm = ''aes-256-gcm'' \<rparr>,
       balance = 100000000, network = ''testnet'', status = Active,
       color = ''#8247E5'', transactionCount = 0,
       lastActivity = ''2024-01-01T00:00:00.000Z'',
       integrityHash = ''7c45'',
       createdAt = Some ''2024-01-01T00:00:00.000Z'' \<rparr>"

definition cold_wallet :: wallet where
  "cold_wallet =
     \<lparr> wallet_id = 1, user = 1, name = ''w'', description = [],
       publicAddress = ''m0201'', publicKey = ''0201'', storageType = Cold,
       encryptedPrivateKey = None,
       encryptionMeta = \<lparr> iv = None, authTag = None, algorithm = ''aes-256-gcm'' \<rparr>,
       balance = 100000000, network = ''testnet'', status = Active,
       color = ''#8247E5'', transactionCount = 0,
       lastActivity = ''2024-01-01T00:00:00.000Z'',
       integrityHash = ''7d9a'',
       createdAt = Some ''2024-01-01T00:00:00.000Z'' \<rparr>"

definition hot_db :: db where
  "hot_db = \<lparr> wallets = [hot_wallet], transactions = [] \<rparr>"

definition two_db :: db where
  "two_db = \<lparr> wallets = [hot_wallet, peer_wallet], transactions = [] \<rparr>"

definition cold_db :: db where
  "cold_db = \<lparr> wallets = [cold_wallet], transactions = [] \<rparr>"

text \<open>A send of \<open>a\<close> satoshis from wallet 1 of user 1, and what it draws.\<close>

definition run_send :: "string \<Rightarrow> int \<Rightarrow> string option \<Rightarrow> send_request" where
  "run_send to a key =
     \<lparr> req_userId = 1, req_walletId = 1, req_toAddress = to, req_amount = a,
       req_memo = '' hi '', req_privateKey = key, req_ipAddress = None,
       req_userAgent = None \<rparr>"

definition run_draws :: draws where
  "run_draws =
     \<lparr> drawn_txId = word_of_nat,
       drawn_block = 5, drawn_blockHash = [9],
       drawn_timestamp = 1704153600000, drawn_now = ''2024-01-02T00:00:00.000Z'' \<rparr>"

text \<open>A payload to sign.\<close>

definition run_payload :: transaction_data where
  "run_payload = \<lparr> td_txId = ''0a'', td_fromAddress = ''m0201'', td_toAddress = ''m0202'',
       td_amount = 50000, td_fee = 10000, td_timestamp = 1704153600000,
       td_previousTxHash = None \<rparr>"

subsection \<open>Transaction chains\<close>

text \<open>
  The invariant of the data model on the transactions of one wallet, in creation
  order: each \<^verbatim>\<open>previousTxHash\<close> is the stored integrity hash of the entry before (null
  for the first), and each stored integrity hash is the hash of the entry's fields.
\<close>

fun linked :: "string option \<Rightarrow> transaction list \<Rightarrow> bool" where
  "linked prev [] = True"
| "linked prev (t # ts) = (previousTxHash t = prev \<and> linked (Some (tx_integrityHash t)) ts)"

definition sealed :: "crypto_lib \<Rightarrow> env \<Rightarrow> transaction \<Rightarrow> bool" where
  "sealed lib e t =
     (case tx_createdAt t of
        None \<Rightarrow> False
      | Some c \<Rightarrow> tx_integrityHash t = transaction_generateIntegrityHash lib e c t)"

definition untampered :: "crypto_lib \<Rightarrow> env \<Rightarrow> transaction list \<Rightarrow> bool" where
  "untampered lib e txs \<longleftrightarrow> linked None txs \<and> list_all (sealed lib e) txs"

text \<open>
  The entries that the loop of \<^verbatim>\<open>verifyTransactionChain\<close> appends for the transactions
  \<open>txs\<close> when \<^verbatim>\<open>previousHash\<close> is \<open>prev\<close> at its start.
\<close>

fun chain_entries ::
  "crypto_lib \<Rightarrow> env \<Rightarrow> string \<Rightarrow> string option \<Rightarrow> transaction list \<Rightarrow> chain_entry list" where
  "chain_entries lib e now prev [] = []"
| "chain_entries lib e now prev (tx # txs) =
     \<lparr> ce_txId = txId tx,
       integrityValid = transaction_verifyIntegrity lib e now tx,
       chainLinkValid = (prev = None \<or> previousTxHash tx = prev),
       ce_createdAt = tx_createdAt tx \<rparr>
     # chain_entries lib e now (Some (tx_integrityHash tx)) txs"

text \<open>Transactions of wallet 1 to build chains from.\<close>

definition run_tx :: "string \<Rightarrow> string option \<Rightarrow> string \<Rightarrow> transaction" where
  "run_tx tid prev h =
     \<lparr> tx_wallet = 1, tx_user = 1, txId = tid, tx_type = Send, tx_status = Confirmed,
       amount = 50000, fee = 10000, fromAddress = ''m0201'', toAddress = ''m0202'',
       balanceAfter = 99940000, confirmations = 6, blockNumber = Some 800005,
       blockHash = Some ''09'', memo = ''hi'', signingMethod = Hot, signature = Some ''01'',
       previousTxHash = prev, ipAddress = None, userAgent = None,
       confirmedAt = Some ''2024-01-02T00:00:00.000Z'', tx_integrityHash = h,
       tx_createdAt = Some ''2024-01-02T00:00:00.000Z'' \<rparr>"

definition tx_a :: transaction where "tx_a = run_tx ''a1'' None ''b69b''"

definition tx_b :: transaction where "tx_b = run_tx ''b2'' (Some ''b69b'') ''b859''"

definition tx_c :: transaction where "tx_c = run_tx ''c3'' (Some ''b859'') ''b830''"

text \<open>A transaction whose \<^verbatim>\<open>previousTxHash\<close> is the hash of no other.\<close>

definition tx_x :: transaction where "tx_x = run_tx ''x9'' (Some ''ffff'') ''b8db''"

definition chain_db :: db where
  "chain_db = \<lparr> wallets = [hot_wallet], transactions = [tx_a, tx_b, tx_c] \<rparr>"

text \<open>The same chain with \<open>tx_x\<close> spliced in at position 1.\<close>

definition spliced_db :: db where
  "spliced_db = \<lparr> wallets = [hot_wallet], transactions = [tx_a, tx_x, tx_b, tx_c] \<rparr>"

text \<open>An entry of the report that passes both checks.\<close>

definition entry_ok :: "chain_entry \<Rightarrow> bool" where
  "entry_ok en \<longleftrightarrow> integrityValid en \<and> chainLinkValid en"

text \<open>
  The verdicts of a report: \<^verbatim>\<open>chainValid\<close> and, for each entry in order, the pair of
  \<^verbatim>\<open>integrityValid\<close> and \<^verbatim>\<open>chainLinkValid\<close>.
\<close>

definition entry_flags :: "chain_entry \<Rightarrow> bool \<times> bool" where
  "entry_flags en = (integrityValid en, chainLinkValid en)"

definition report_flags :: "error + chain_report \<Rightarrow> (bool \<times> (bool \<times> bool) list) option" where
  "report_flags r =
     (case r of Inl _ \<Rightarrow> None | Inr rep \<Rightarrow> Some (chainValid rep, map entry_flags (results rep)))"

text \<open>
  The records and the wallets that the send of 50000 satoshis from wallet 1 to the
  address of wallet 2 leaves, and the databases after its first two writes and after
  all four.
\<close>

definition sent_tx :: transaction where
  "sent_tx =
     \<lparr> tx_wallet = 1, tx_user = 1,
       txId = ''000102030405060708090a0b0c0d0e0f101112131415161718191a1b1c1d1e1f'',
       tx_type = Send, tx_status = Confirmed, amount = 50000, fee = 10000,
       fromAddress = ''m0201'', toAddress = ''m0202'', balanceAfter = 99940000,
       confirmations = 6, blockNumber = Some 800005, blockHash = Some ''09'',
       memo = ''hi'', signingMethod = Hot, signature = Some ''01c0c0'',
       previousTxHash = None, ipAddress = None, userAgent = None,
       confirmedAt = Some ''2024-01-02T00:00:00.000Z'',
       tx_integrityHash = ''f4dd'',
       tx_createdAt = Some ''2024-01-02T00:00:00.000Z'' \<rparr>"

definition received_tx :: transaction where
  "received_tx =
     \<lparr> tx_wallet = 2, tx_user = 1,
       txId = ''000102030405060708090a0b0c0d0e0f101112131415161718191a1b1c1d1e1f-receive'',
       tx_type = Receive, tx_status = Confirmed, amount = 50000, fee = 0,
       fromAddress = ''m0201'', toAddress = ''m0202'', balanceAfter = 100050000,
       confirmations = 6, blockNumber = Some 800005, blockHash = Some ''09'',
       memo = ''Received from m0201...'', signingMethod = Hot, signature = None,
       previousTxHash = None, ipAddress = None, userAgent = None,
       confirmedAt = Some ''2024-01-02T00:00:00.000Z'',
       tx_integrityHash = ''fc7c'',
       tx_createdAt = Some ''2024-01-02T00:00:00.000Z'' \<rparr>"

definition hot_wallet_debited :: wallet where
  "hot_wallet_debited =
     hot_wallet\<lparr> balance := 99940000, lastActivity := ''2024-01-02T00:00:00.000Z'',
                 transactionCount := 1, integrityHash := ''7b31'' \<rparr>"

definition peer_wallet_credited :: wallet where
  "peer_wallet_credited =
     peer_wallet\<lparr> balance := 100050000, lastActivity := ''2024-01-02T00:00:00.000Z'',
                  transactionCount := 1, integrityHash := ''7c4a'' \<rparr>"

definition two_db_debited :: db where
  "two_db_debited = \<lparr> wallets = [hot_wallet_debited, peer_wallet], transactions = [sent_tx] \<rparr>"

definition two_db_done :: db where
  "two_db_done = \<lparr> wallets = [hot_wallet_debited, peer_wallet_credited],
                   transactions = [sent_tx, received_tx] \<rparr>"

text \<open>A storage that rejects the write of the mirrored receive record.\<close>

definition reject_receive_record :: "write_op \<Rightarrow> bool" where
  "reject_receive_record op \<longleftrightarrow> op \<noteq> WriteReceiveRecord"

definition accept_all :: "write_op \<Rightarrow> bool" where
  "accept_all op \<longleftrightarrow> True"

section \<open>Properties\<close>

subsection \<open>Decimal rendering is injective\<close>

lemma digit_char_inj: "a < 10 \<Longrightarrow> b < 10 \<Longrightarrow> digit_char a = digit_char b \<Longrightarrow> a = b"
proof -
  assume a: "a < 10" and b: "b < 10" and eq: "digit_char a = digit_char b"
  from eq have "(of_char (digit_char a) :: nat) = of_char (digit_char b)" by simp
  with a b show ?thesis by (simp add: digit_char_def)
qed

lemma digit_char_not_minus: "d < 10 \<Longrightarrow> digit_char d \<noteq> CHR ''-''"
proof -
  assume d: "d < 10"
  show ?thesis
  proof
    assume "digit_char d = CHR ''-''"
    then have "(of_char (digit_char d) :: nat) = of_char CHR ''-''" by simp
    with d show False by (simp add: digit_char_def)
  qed
qed

lemma nat_to_string_nonempty: "nat_to_string n \<noteq> []"
  by (subst nat_to_string.simps) simp

lemma nat_to_string_long: "10 \<le> n \<Longrightarrow> 2 \<le> length (nat_to_string n)"
proof -
  assume "10 \<le> n"
  moreover have "1 \<le> length (nat_to_string (n div 10))"
    using nat_to_string_nonempty [of "n div 10"] by (cases "nat_to_string (n div 10)") auto
  ultimately show ?thesis
    by (subst nat_to_string.simps) simp
qed

lemma nat_to_string_digits: "c \<in> set (nat_to_string n) \<Longrightarrow> \<exists>d<10. c = digit_char d"
proof (induction n rule: nat_to_string.induct)
  case (1 n)
  show ?case
  proof (cases "n < 10")
    case True
    with "1.prems" show ?thesis
      by (subst (asm) nat_to_string.simps) auto
  next
    case False
    from "1.prems" False
    have "c \<in> set (nat_to_string (n div 10)) \<or> c = digit_char (n mod 10)"
      by (subst (asm) nat_to_string.simps) auto
    then show ?thesis
    proof
      assume "c \<in> set (nat_to_string (n div 10))"
      with "1.IH" False show ?thesis by simp
    next
      assume "c = digit_char (n mod 10)"
      moreover have "n mod 10 < 10" by simp
      ultimately show ?thesis by blast
    qed
  qed
qed

lemma nat_to_string_inj: "nat_to_string n = nat_to_string m \<Longrightarrow> n = m"
proof (induction n arbitrary: m rule: nat_to_string.induct)
  case (1 n)
  show ?case
  proof (cases "n < 10")
    case small: True
    show ?thesis
    proof (cases "m < 10")
      case True
      with small "1.prems" show ?thesis
        by (subst (asm) (1 2) nat_to_string.simps) (simp add: digit_char_inj)
    next
      case False
      then have "2 \<le> length (nat_to_string m)" by (simp add: nat_to_string_long)
      moreover from small have "length (nat_to_string n) = 1"
        by (subst nat_to_string.simps) simp
      ultimately show ?thesis using "1.prems" by simp
    qed
  next
    case big: False
    show ?thesis
    proof (cases "m < 10")
      case True
      then have "length (nat_to_string m) = 1"
        by (subst nat_to_string.simps) simp
      moreover from big have "2 \<le> length (nat_to_string n)" by (simp add: nat_to_string_long)
      ultimately show ?thesis using "1.prems" by simp
    next
      case False
      from big have n: "nat_to_string n = nat_to_string (n div 10) @ [digit_char (n mod 10)]"
        by (subst nat_to_string.simps) simp
      from False have m: "nat_to_string m = nat_to_string (m div 10) @ [digit_char (m mod 10)]"
        by (subst nat_to_string.simps) simp
      from "1.prems" n m
      have eq: "nat_to_string (n div 10) = nat_to_string (m div 10)"
        and d: "digit_char (n mod 10) = digit_char (m mod 10)" by simp_all
      from "1.IH" [OF big eq] have "n div 10 = m div 10" .
      moreover from d have "n mod 10 = m mod 10" by (simp add: digit_char_inj)
      ultimately show ?thesis by (metis div_mult_mod_eq)
    qed
  qed
qed

lemma nat_to_string_no_minus: "nat_to_string n \<noteq> CHR ''-'' # s"
proof
  assume "nat_to_string n = CHR ''-'' # s"
  then have "CHR ''-'' \<in> set (nat_to_string n)" by simp
  then obtain d where "d < 10" "CHR ''-'' = digit_char d"
    using nat_to_string_digits by blast
  then show False using digit_char_not_minus by metis
qed

lemma number_to_string_inj: "number_to_string a = number_to_string b \<Longrightarrow> a = b"
proof -
  assume eq: "number_to_string a = number_to_string b"
  consider "a < 0" "b < 0" | "a < 0" "\<not> b < 0" | "\<not> a < 0" "b < 0" | "\<not> a < 0" "\<not> b < 0"
    by blast
  then show ?thesis
  proof cases
    case 1
    with eq have "nat (- a) = nat (- b)"
      by (simp add: number_to_string_def nat_to_string_inj)
    with 1 show ?thesis by simp
  next
    case 2
    with eq [symmetric] show ?thesis
      using nat_to_string_no_minus [of "nat b"] by (simp add: number_to_string_def)
  next
    case 3
    with eq show ?thesis
      using nat_to_string_no_minus [of "nat a"] by (simp add: number_to_string_def)
  next
    case 4
    with eq have "nat a = nat b"
      by (simp add: number_to_string_def nat_to_string_inj)
    with 4 show ?thesis by simp
  qed
qed

lemma wallet_dataToHash_balance:
  "wallet_dataToHash now (w\<lparr>balance := b\<rparr>) = wallet_dataToHash now w \<Longrightarrow> b = balance w"
  by (simp add: wallet_dataToHash_def json_object_def number_to_string_inj)

subsection \<open>Hexadecimal rendering is injective\<close>

lemma unat_byte_less: "unat (b :: byte) < 256"
  using unsigned_less [of b, where ?'a = nat] by simp

lemma hex_value_hex_digit: "d < 16 \<Longrightarrow> hex_value (hex_digit d) = Some d"
  by (auto simp add: hex_value_def hex_digit_def Let_def)

lemma hex_byte_roundtrip: "word_of_nat (16 * (unat b div 16) + unat b mod 16) = (b :: byte)"
  by simp

lemma hex_decode_encode: "hex_decode (hex_encode bs) = bs"
proof (induction bs)
  case Nil
  show ?case by (simp add: hex_encode_def)
next
  case (Cons b bs)
  have hi: "unat b div 16 < 16" using unat_byte_less [of b] by simp
  have lo: "unat b mod 16 < 16" by simp
  have "hex_encode (b # bs) = hex_digit (unat b div 16) # hex_digit (unat b mod 16) # hex_encode bs"
    by (simp add: hex_encode_def hex_encode_byte_def)
  then show ?case
    using Cons.IH hex_value_hex_digit [OF hi] hex_value_hex_digit [OF lo]
    by simp
qed

lemma hex_encode_inj: "hex_encode a = hex_encode b \<Longrightarrow> a = b"
  by (metis hex_decode_encode)

lemma wallet_dataToHash_now:
  "createdAt w \<noteq> None \<Longrightarrow> wallet_dataToHash now w = wallet_dataToHash now' w"
  by (auto simp add: wallet_dataToHash_def)

lemma wallet_hashInput_now:
  "createdAt w \<noteq> None \<Longrightarrow> wallet_hashInput e now w = wallet_hashInput e now' w"
  using wallet_dataToHash_now [of w now now'] by (simp add: wallet_hashInput_def)

lemma wallet_hashInput_balance:
  assumes "wallet_hashInput e now (w\<lparr>balance := b\<rparr>) = wallet_hashInput e now w"
  shows "b = balance w"
proof -
  from assms have "wallet_dataToHash now (w\<lparr>balance := b\<rparr>) = wallet_dataToHash now w"
    by (simp add: wallet_hashInput_def js_concat_def)
  then show ?thesis by (rule wallet_dataToHash_balance)
qed

subsection \<open>Rules to evaluate the model on concrete inputs\<close>

lemma digit_char_eval:
  "digit_char 0 = CHR ''0''" "digit_char (Suc 0) = CHR ''1''" "digit_char 2 = CHR ''2''"
  "digit_char 3 = CHR ''3''" "digit_char 4 = CHR ''4''" "digit_char 5 = CHR ''5''"
  "digit_char 6 = CHR ''6''" "digit_char 7 = CHR ''7''" "digit_char 8 = CHR ''8''"
  "digit_char 9 = CHR ''9''"
  by (simp_all add: digit_char_def char_of_def bit_Suc_0_iff)

lemma hex_digit_eval:
  "hex_digit 0 = CHR ''0''" "hex_digit (Suc 0) = CHR ''1''" "hex_digit 2 = CHR ''2''"
  "hex_digit 3 = CHR ''3''" "hex_digit 4 = CHR ''4''" "hex_digit 5 = CHR ''5''"
  "hex_digit 6 = CHR ''6''" "hex_digit 7 = CHR ''7''" "hex_digit 8 = CHR ''8''"
  "hex_digit 9 = CHR ''9''" "hex_digit 10 = CHR ''a''" "hex_digit 11 = CHR ''b''"
  "hex_digit 12 = CHR ''c''" "hex_digit 13 = CHR ''d''" "hex_digit 14 = CHR ''e''"
  "hex_digit 15 = CHR ''f''"
  by (simp_all add: hex_digit_def char_of_def bit_Suc_0_iff)

lemma nat_to_string_small: "n < 10 \<Longrightarrow> nat_to_string n = [digit_char n]"
  by (subst nat_to_string.simps) simp

lemma nat_to_string_big:
  "10 \<le> n \<Longrightarrow> nat_to_string n = nat_to_string (n div 10) @ [digit_char (n mod 10)]"
  by (subst nat_to_string.simps) simp

lemmas json_eval = number_to_string_def nat_to_string_small nat_to_string_big digit_char_eval hex_encode_def
  hex_encode_byte_def hex_digit_eval json_string_def json_string_or_null_def
  json_escape_char_def json_object_def js_or_def js_concat_def

lemma randomBytes_length: "length (randomBytes n source) = n"
  by (simp add: randomBytes_def)

lemma generateTxId_run:
  "generateTxId word_of_nat
   = ''000102030405060708090a0b0c0d0e0f101112131415161718191a1b1c1d1e1f''"
  by (simp add: generateTxId_def randomBytes_def upt_rec json_eval)

lemmas wallet_eval = json_eval wallet_dataToHash_def wallet_hashInput_def
  wallet_generateIntegrityHash_def wallet_verifyIntegrity_def run_lib_def run_env_def

lemmas createWallet_eval = wallet_eval createWallet_def createWallet_with_def Wallet_create_def
  generateKeyPair_def getNetwork_def getNetworkName_def encryptPrivateKey_def
  getEncryptionKey_def parse_storageType_def trim_def is_space_def generateRandomColor_def
  colors_def run_wallet_draws_def run_create_request_def empty_db_def Let_def

lemma createWallet_hot:
  "createWallet run_lib run_env (run_wallet_draws 1 [1]) (run_create_request ''hot'') empty_db
   = (Inr \<lparr> cwr_wallet = hot_wallet,
            cwr_message = ''Wallet created successfully. Private key is securely encrypted.'',
            cwr_privateKey = None, cwr_privateKeyWIF = None \<rparr>, hot_db)"
  by (simp add: createWallet_eval hot_wallet_def hot_db_def)

lemma createWallet_peer:
  "snd (createWallet run_lib run_env (run_wallet_draws 2 [2]) (run_create_request ''hot'') hot_db)
   = two_db"
  by (simp add: createWallet_eval hot_wallet_def hot_db_def peer_wallet_def two_db_def)

lemma createWallet_cold:
  "createWallet run_lib run_env (run_wallet_draws 1 [1]) (run_create_request ''cold'') empty_db
   = (Inr \<lparr> cwr_wallet = cold_wallet,
            cwr_message = ''IMPORTANT: Save your private key securely. It will NEVER be shown again!'',
            cwr_privateKey = Some ''01'', cwr_privateKeyWIF = Some ''c01'' \<rparr>, cold_db)"
  by (simp add: createWallet_eval cold_wallet_def cold_db_def)

text \<open>
  Two private keys with the same public key: the creations leave the same database and
  differ in the key that the response carries.
\<close>

lemma createWallet_first_byte:
  "createWallet first_byte_lib run_env (run_wallet_draws 1 [1]) (run_create_request ''cold'') empty_db
   = (Inr \<lparr> cwr_wallet = cold_wallet,
            cwr_message = ''IMPORTANT: Save your private key securely. It will NEVER be shown again!'',
            cwr_privateKey = Some ''01'', cwr_privateKeyWIF = Some ''c01'' \<rparr>, cold_db)"
  by (simp add: first_byte_lib_def createWallet_eval cold_wallet_def cold_db_def)

lemma createWallet_first_byte_other:
  "createWallet first_byte_lib run_env ((run_wallet_draws 1 [1])\<lparr>wd_privateKey := [1, 9]\<rparr>)
     (run_create_request ''cold'') empty_db
   = (Inr \<lparr> cwr_wallet = cold_wallet,
            cwr_message = ''IMPORTANT: Save your private key securely. It will NEVER be shown again!'',
            cwr_privateKey = Some ''0109'', cwr_privateKeyWIF = Some ''c0109'' \<rparr>, cold_db)"
  by (simp add: first_byte_lib_def createWallet_eval cold_wallet_def cold_db_def)

text \<open>
  The default of the parameter replaces a storage type that was left out; a
  \<^verbatim>\<open>null\<close> reaches the schema and fails its validation.
\<close>

lemma createWallet_undefined:
  "createWallet lib e drw (req\<lparr>cw_storageType := Undefined\<rparr>) d
   = createWallet lib e drw (req\<lparr>cw_storageType := Given ''hot''\<rparr>) d"
  by (simp add: createWallet_def createWallet_with_def Let_def split: sum.splits)

lemma createWallet_null:
  "cw_storageType req = Null \<Longrightarrow>
   createWallet lib e drw req d = (Inl (WalletCreationFailed ValidationError), d)"
  by (simp add: createWallet_def createWallet_with_def Wallet_create_def Let_def)

subsection \<open>Tamper detection on wallets\<close>

text \<open>
  Claim C1. Let \<open>w\<close> be a stored wallet whose integrity hash verifies. After its
  balance is changed to any other value \<open>b\<close>, verification fails, and after the
  balance is restored it succeeds again. The first part holds unless the two strings
  hashed are a collision of SHA-256.
\<close>

theorem wallet_tamper_detection:
  assumes valid: "wallet_verifyIntegrity lib e now1 w"
    and created: "createdAt w \<noteq> None"
    and changed: "b \<noteq> balance w"
    and no_collision:
      "\<not> collides lib (wallet_hashInput e now2 (w\<lparr>balance := b\<rparr>)) (wallet_hashInput e now1 w)"
  shows "\<not> wallet_verifyIntegrity lib e now2 (w\<lparr>balance := b\<rparr>)
       \<and> wallet_verifyIntegrity lib e now3 ((w\<lparr>balance := b\<rparr>)\<lparr>balance := balance w\<rparr>)"
proof
  show "\<not> wallet_verifyIntegrity lib e now2 (w\<lparr>balance := b\<rparr>)"
  proof
    assume "wallet_verifyIntegrity lib e now2 (w\<lparr>balance := b\<rparr>)"
    with valid have "hex_encode (sha256 lib (wallet_hashInput e now2 (w\<lparr>balance := b\<rparr>)))
        = hex_encode (sha256 lib (wallet_hashInput e now1 w))"
      by (simp add: wallet_verifyIntegrity_def wallet_generateIntegrityHash_def)
    then have "sha256 lib (wallet_hashInput e now2 (w\<lparr>balance := b\<rparr>))
        = sha256 lib (wallet_hashInput e now1 w)"
      by (rule hex_encode_inj)
    with no_collision
    have "wallet_hashInput e now2 (w\<lparr>balance := b\<rparr>) = wallet_hashInput e now1 w"
      by (auto simp add: collides_def)
    moreover from created
    have "wallet_hashInput e now1 w = wallet_hashInput e now2 w"
      by (rule wallet_hashInput_now)
    ultimately have "b = balance w"
      using wallet_hashInput_balance by simp
    with changed show False by simp
  qed
next
  have "(w\<lparr>balance := b\<rparr>)\<lparr>balance := balance w\<rparr> = w" by simp
  moreover from valid created have "wallet_verifyIntegrity lib e now3 w"
    using wallet_hashInput_now [of w e now1 now3]
    by (simp add: wallet_verifyIntegrity_def wallet_generateIntegrityHash_def)
  ultimately show
    "wallet_verifyIntegrity lib e now3 ((w\<lparr>balance := b\<rparr>)\<lparr>balance := balance w\<rparr>)"
    by simp
qed

theorem wallet_tamper_detection_witness:
  "wallet_verifyIntegrity run_lib run_env ''2024-03-01T00:00:00.000Z'' hot_wallet
   \<and> createdAt hot_wallet \<noteq> None
   \<and> 99999999 \<noteq> balance hot_wallet
   \<and> \<not> wallet_verifyIntegrity run_lib run_env ''2024-03-02T00:00:00.000Z''
         (hot_wallet\<lparr>balance := 99999999\<rparr>)
   \<and> wallet_verifyIntegrity run_lib run_env ''2024-03-03T00:00:00.000Z''
         ((hot_wallet\<lparr>balance := 99999999\<rparr>)\<lparr>balance := balance hot_wallet\<rparr>)"
proof -
  have valid: "wallet_verifyIntegrity run_lib run_env ''2024-03-01T00:00:00.000Z'' hot_wallet"
    by (simp add: wallet_eval hot_wallet_def)
  have created: "createdAt hot_wallet \<noteq> None"
    by (simp add: hot_wallet_def)
  have changed: "99999999 \<noteq> balance hot_wallet"
    by (simp add: hot_wallet_def)
  have no_collision:
    "\<not> collides run_lib
        (wallet_hashInput run_env ''2024-03-02T00:00:00.000Z'' (hot_wallet\<lparr>balance := 99999999\<rparr>))
        (wallet_hashInput run_env ''2024-03-01T00:00:00.000Z'' hot_wallet)"
    by (simp add: collides_def wallet_eval hot_wallet_def)
  from wallet_tamper_detection [OF valid created changed no_collision] valid created changed
  show ?thesis by simp
qed

subsection \<open>Encryption and signature round trips\<close>

lemma getEncryptionKey_Some:
  "getEncryptionKey lib e = Some key \<Longrightarrow> key = sha256 lib (the (ENCRYPTION_KEY e))"
  by (auto simp add: getEncryptionKey_def split: option.splits if_splits)

text \<open>
  Claim C7. Whatever IV the encryption draws, decrypting what \<^verbatim>\<open>encryptPrivateKey\<close>
  returned for a private key \<open>k\<close>, with the IV and the tag it returned, gives \<open>k\<close>
  back. AES-256-GCM is assumed correct; the hexadecimal renderings of the IV and of
  the tag, and the derivation of the key on both sides, are those of the service.
\<close>

theorem decrypt_encrypt_roundtrip:
  assumes lib_ok: "aes_gcm_correct lib"
    and enc: "encryptPrivateKey lib e ivBytes k = Inr x"
  shows "decryptPrivateKey lib e (Some (encryptedData x)) (Some (enc_iv x)) (Some (enc_authTag x))
         = Inr k"
proof -
  from enc obtain key c tag where
    key: "getEncryptionKey lib e = Some key"
    and ciph: "aes_gcm_cipher lib key ivBytes k = Some (c, tag)"
    and x: "x = \<lparr> encryptedData = c, enc_iv = hex_encode ivBytes, enc_authTag = hex_encode tag \<rparr>"
    by (auto simp add: encryptPrivateKey_def split: option.splits)
  from lib_ok ciph have "aes_gcm_decipher lib key ivBytes tag c = Some k"
    by (simp add: aes_gcm_correct_def)
  with key x show ?thesis
    by (simp add: decryptPrivateKey_def hex_decode_encode)
qed

lemma run_lib_aes: "aes_gcm_correct run_lib"
  by (auto simp add: aes_gcm_correct_def run_lib_def)

lemma run_lib_ecdsa: "ecdsa_correct run_lib"
  by (simp add: ecdsa_correct_def run_lib_def)

lemmas crypto_eval = json_eval run_lib_def run_env_def encryptPrivateKey_def
  decryptPrivateKey_def getEncryptionKey_def Let_def

theorem decrypt_encrypt_roundtrip_witness:
  "aes_gcm_correct run_lib
   \<and> encryptPrivateKey run_lib run_env [7, 7] ''01''
       = Inr \<lparr> encryptedData = ''01'', enc_iv = ''0707'', enc_authTag = ''016b0707'' \<rparr>
   \<and> decryptPrivateKey run_lib run_env (Some ''01'') (Some ''0707'') (Some ''016b0707'') = Inr ''01''"
proof -
  have enc: "encryptPrivateKey run_lib run_env [7, 7] ''01''
       = Inr \<lparr> encryptedData = ''01'', enc_iv = ''0707'', enc_authTag = ''016b0707'' \<rparr>"
    by (simp add: crypto_eval)
  from decrypt_encrypt_roundtrip [OF run_lib_aes enc] run_lib_aes enc
  show ?thesis by simp
qed

text \<open>
  Claim C8. For every valid private key and every payload, \<^verbatim>\<open>signTransaction\<close>
  returns a signature that \<^verbatim>\<open>verifySignature\<close> accepts for the same payload under
  the public key of that private key, which is the one \<^verbatim>\<open>deriveKeyPair\<close> gives.
  ECDSA is assumed correct.
\<close>

theorem sign_verify_roundtrip:
  assumes lib_ok: "ecdsa_correct lib"
    and valid: "ec_private_ok lib (hex_decode privateKeyHex)"
  shows "\<exists>r. signTransaction lib privateKeyHex payload = Inr r
           \<and> sr_publicKey r = hex_encode (ec_publicKey lib (hex_decode privateKeyHex))
           \<and> deriveKeyPair lib e privateKeyHex
               = Inr (sr_publicKey r,
                      p2pkh_address lib (getNetwork e) (ec_publicKey lib (hex_decode privateKeyHex)))
           \<and> verifySignature lib (sr_publicKey r) (sr_signature r) payload"
proof -
  let ?d = "hex_decode privateKeyHex"
  let ?h = "sha256 lib (stringify_transaction_data payload)"
  let ?r = "\<lparr> sr_signature = hex_encode (ec_sign lib ?d ?h),
              sr_txHash = hex_encode ?h,
              sr_publicKey = hex_encode (ec_publicKey lib ?d) \<rparr>"
  from valid have sign: "signTransaction lib privateKeyHex payload = Inr ?r"
    by (simp add: signTransaction_def Let_def)
  from lib_ok valid have pub: "ec_public_ok lib (ec_publicKey lib ?d)"
    and ver: "ec_verify lib (ec_publicKey lib ?d) ?h (ec_sign lib ?d ?h) = Some True"
    by (simp_all add: ecdsa_correct_def)
  from pub ver have "verifySignature lib (sr_publicKey ?r) (sr_signature ?r) payload"
    by (simp add: verifySignature_def Let_def hex_decode_encode)
  moreover from valid have "deriveKeyPair lib e privateKeyHex
      = Inr (sr_publicKey ?r, p2pkh_address lib (getNetwork e) (ec_publicKey lib ?d))"
    by (simp add: deriveKeyPair_def Let_def)
  ultimately show ?thesis using sign by simp
qed

theorem sign_verify_roundtrip_witness:
  "ecdsa_correct run_lib \<and> ec_private_ok run_lib (hex_decode ''01'')
   \<and> (\<exists>r. signTransaction run_lib ''01'' run_payload = Inr r
          \<and> sr_publicKey r = ''0201''
          \<and> verifySignature run_lib (sr_publicKey r) (sr_signature r) run_payload)"
proof -
  have valid: "ec_private_ok run_lib (hex_decode ''01'')"
    by (simp add: run_lib_def hex_value_def)
  have pub: "hex_encode (ec_publicKey run_lib (hex_decode ''01'')) = ''0201''"
    by (simp add: run_lib_def hex_value_def json_eval)
  from sign_verify_roundtrip [OF run_lib_ecdsa valid, of run_payload run_env] pub
    run_lib_ecdsa valid
  show ?thesis by auto
qed


subsection \<open>Verification of a transaction chain\<close>

lemma verify_loop_entries:
  "verify_loop lib e now txs prev valid res
   = (valid \<and> list_all entry_ok (chain_entries lib e now prev txs),
      res @ chain_entries lib e now prev txs)"
  by (induction txs arbitrary: prev valid res) (auto simp add: Let_def entry_ok_def)

lemma chain_entries_length: "length (chain_entries lib e now prev txs) = length txs"
  by (induction txs arbitrary: prev) simp_all

lemma chain_entries_append:
  "chain_entries lib e now prev (xs @ ys)
   = chain_entries lib e now prev xs
     @ chain_entries lib e now (if xs = [] then prev else Some (tx_integrityHash (last xs))) ys"
  by (induction xs arbitrary: prev) simp_all

lemma linked_append:
  "linked prev (xs @ ys)
   \<longleftrightarrow> linked prev xs
       \<and> linked (if xs = [] then prev else Some (tx_integrityHash (last xs))) ys"
  by (induction xs arbitrary: prev) simp_all

lemma sealed_verifies: "sealed lib e t \<Longrightarrow> transaction_verifyIntegrity lib e now t"
  by (auto simp add: sealed_def transaction_verifyIntegrity_def
      transaction_generateIntegrityHash_def transaction_dataToHash_def split: option.splits)

lemma linked_sealed_entries:
  "linked prev txs \<Longrightarrow> list_all (sealed lib e) txs
   \<Longrightarrow> list_all entry_ok (chain_entries lib e now prev txs)"
  by (induction txs arbitrary: prev) (auto simp add: entry_ok_def sealed_verifies)

text \<open>After one entry, whatever its link, the entries of a linked and sealed rest are valid.\<close>

lemma entries_after_break:
  "linked prev (y # ys) \<Longrightarrow> list_all (sealed lib e) (y # ys)
   \<Longrightarrow> list_all entry_ok (tl (chain_entries lib e now prev' (y # ys)))"
  by (simp add: linked_sealed_entries)

lemma verifyTransactionChain_entries:
  assumes "find (\<lambda>w. wallet_id w = wid \<and> user w = uid) (wallets d) = Some w0"
    and "filter (\<lambda>t. tx_wallet t = wid) (transactions d) = txs"
  shows "\<exists>r. verifyTransactionChain lib e now d wid uid = Inr r
           \<and> results r = chain_entries lib e now None txs
           \<and> chainValid r = list_all entry_ok (chain_entries lib e now None txs)
           \<and> totalTransactions r = length txs"
  using assms by (simp add: verifyTransactionChain_def verify_loop_entries Let_def)

text \<open>
  Claim C2, as the code has it. For a wallet whose transactions are an untampered
  chain of \<open>N\<close> entries, \<^verbatim>\<open>verifyTransactionChain\<close> reports every entry valid and
  the chain valid. When a transaction \<open>x\<close> whose \<^verbatim>\<open>previousTxHash\<close> is not the hash of
  the entry before is spliced in at a position \<open>k \<ge> 1\<close>, the report has the chain
  invalid, the entries before \<open>k\<close> valid and the entry at \<open>k\<close> with an invalid
  link; each link is checked against the entry just before, so the entries after
  position \<open>k + 1\<close> are reported valid.
\<close>

theorem verifyChain_report:
  assumes owner: "find (\<lambda>w. wallet_id w = wid \<and> user w = uid) (wallets d) = Some w0"
    and unt: "untampered lib e (xs @ ys)"
  shows "(filter (\<lambda>t. tx_wallet t = wid) (transactions d) = xs @ ys \<longrightarrow>
            (\<exists>r. verifyTransactionChain lib e now d wid uid = Inr r
               \<and> chainValid r \<and> totalTransactions r = length (xs @ ys)
               \<and> length (results r) = length (xs @ ys)
               \<and> (\<forall>i < length (xs @ ys).
                     integrityValid (results r ! i) \<and> chainLinkValid (results r ! i))))
       \<and> (filter (\<lambda>t. tx_wallet t = wid) (transactions d) = xs @ x # ys \<and> xs \<noteq> []
            \<and> previousTxHash x \<noteq> Some (tx_integrityHash (last xs)) \<longrightarrow>
            (\<exists>r. verifyTransactionChain lib e now d wid uid = Inr r
               \<and> \<not> chainValid r
               \<and> length (results r) = Suc (length (xs @ ys))
               \<and> (\<forall>i < length xs.
                     integrityValid (results r ! i) \<and> chainLinkValid (results r ! i))
               \<and> \<not> chainLinkValid (results r ! length xs)
               \<and> (\<forall>i. length xs + 1 < i \<and> i \<le> length (xs @ ys) \<longrightarrow>
                     integrityValid (results r ! i) \<and> chainLinkValid (results r ! i))))"
proof (intro conjI impI)
  assume txs: "filter (\<lambda>t. tx_wallet t = wid) (transactions d) = xs @ ys"
  from verifyTransactionChain_entries [OF owner txs, of lib e now]
  obtain r where r: "verifyTransactionChain lib e now d wid uid = Inr r"
    and res: "results r = chain_entries lib e now None (xs @ ys)"
    and cv: "chainValid r = list_all entry_ok (chain_entries lib e now None (xs @ ys))"
    and tot: "totalTransactions r = length (xs @ ys)" by blast
  from unt have ok: "list_all entry_ok (chain_entries lib e now None (xs @ ys))"
    by (simp add: untampered_def linked_sealed_entries)
  then have "\<forall>i < length (xs @ ys). entry_ok (chain_entries lib e now None (xs @ ys) ! i)"
    by (simp add: list_all_length chain_entries_length)
  with r res cv tot ok show "\<exists>r. verifyTransactionChain lib e now d wid uid = Inr r
      \<and> chainValid r \<and> totalTransactions r = length (xs @ ys)
      \<and> length (results r) = length (xs @ ys)
      \<and> (\<forall>i < length (xs @ ys).
            integrityValid (results r ! i) \<and> chainLinkValid (results r ! i))"
    by (simp add: chain_entries_length entry_ok_def)
next
  assume "filter (\<lambda>t. tx_wallet t = wid) (transactions d) = xs @ x # ys \<and> xs \<noteq> []
      \<and> previousTxHash x \<noteq> Some (tx_integrityHash (last xs))"
  then have txs: "filter (\<lambda>t. tx_wallet t = wid) (transactions d) = xs @ x # ys"
    and ne: "xs \<noteq> []"
    and wrong: "previousTxHash x \<noteq> Some (tx_integrityHash (last xs))" by simp_all
  let ?pre = "chain_entries lib e now None xs"
  let ?ex = "\<lparr> ce_txId = txId x,
               integrityValid = transaction_verifyIntegrity lib e now x,
               chainLinkValid = False,
               ce_createdAt = tx_createdAt x \<rparr>"
  let ?post = "chain_entries lib e now (Some (tx_integrityHash x)) ys"
  from verifyTransactionChain_entries [OF owner txs, of lib e now]
  obtain r where r: "verifyTransactionChain lib e now d wid uid = Inr r"
    and res: "results r = chain_entries lib e now None (xs @ x # ys)"
    and cv: "chainValid r = list_all entry_ok (chain_entries lib e now None (xs @ x # ys))"
    by blast
  from ne wrong have split: "chain_entries lib e now None (xs @ x # ys) = ?pre @ ?ex # ?post"
    by (simp add: chain_entries_append)
  from unt have lx: "linked None xs" and sx: "list_all (sealed lib e) xs"
    and ly: "linked (Some (tx_integrityHash (last xs))) ys" and sy: "list_all (sealed lib e) ys"
    using ne by (simp_all add: untampered_def linked_append)
  from lx sx have pre_ok: "list_all entry_ok ?pre" by (rule linked_sealed_entries)
  have len_pre: "length ?pre = length xs" by (rule chain_entries_length)
  have before: "\<forall>i < length xs. integrityValid (results r ! i) \<and> chainLinkValid (results r ! i)"
  proof (intro allI impI)
    fix i assume i: "i < length xs"
    with pre_ok len_pre have "entry_ok (?pre ! i)" by (simp add: list_all_length)
    with i len_pre res split
    show "integrityValid (results r ! i) \<and> chainLinkValid (results r ! i)"
      by (simp add: nth_append entry_ok_def)
  qed
  have at: "\<not> chainLinkValid (results r ! length xs)"
    using res split len_pre by (simp add: nth_append)
  have after: "\<forall>i. length xs + 1 < i \<and> i \<le> length (xs @ ys) \<longrightarrow>
      integrityValid (results r ! i) \<and> chainLinkValid (results r ! i)"
  proof (intro allI impI)
    fix i assume i: "length xs + 1 < i \<and> i \<le> length (xs @ ys)"
    then obtain y ys' where ys: "ys = y # ys'" by (cases ys) auto
    from ly sy ys have tail: "list_all entry_ok (tl ?post)"
      using entries_after_break [of "Some (tx_integrityHash (last xs))" y ys' lib e now
          "Some (tx_integrityHash x)"] by simp
    from i have lt: "length xs + 1 < i" and le: "i \<le> length xs + length ys" by simp_all
    define j where "j = i - length xs - 2"
    from lt have ij: "i = length xs + Suc (Suc j)" unfolding j_def by arith
    from le ys ij have j: "j < length (tl ?post)" by (simp add: chain_entries_length)
    with tail have okj: "entry_ok (tl ?post ! j)" by (simp add: list_all_length)
    have "results r ! i = (?ex # ?post) ! Suc (Suc j)"
      using res split len_pre ij by (simp add: nth_append)
    also have "\<dots> = tl ?post ! j" using ys by simp
    finally show "integrityValid (results r ! i) \<and> chainLinkValid (results r ! i)"
      using okj by (simp add: entry_ok_def)
  qed
  have "\<not> chainValid r" using cv split by (simp add: entry_ok_def)
  moreover have "length (results r) = Suc (length (xs @ ys))"
    using res by (simp add: chain_entries_length)
  ultimately show "\<exists>r. verifyTransactionChain lib e now d wid uid = Inr r
      \<and> \<not> chainValid r
      \<and> length (results r) = Suc (length (xs @ ys))
      \<and> (\<forall>i < length xs. integrityValid (results r ! i) \<and> chainLinkValid (results r ! i))
      \<and> \<not> chainLinkValid (results r ! length xs)
      \<and> (\<forall>i. length xs + 1 < i \<and> i \<le> length (xs @ ys) \<longrightarrow>
            integrityValid (results r ! i) \<and> chainLinkValid (results r ! i))"
    using r before at after by blast
qed


lemmas chain_eval = json_eval run_lib_def run_env_def transaction_dataToHash_def
  transaction_generateIntegrityHash_def transaction_verifyIntegrity_def
  verifyTransactionChain_def sealed_def untampered_def run_tx_def tx_a_def tx_b_def tx_c_def
  tx_x_def chain_db_def spliced_db_def hot_wallet_def report_flags_def entry_flags_def Let_def

theorem verifyChain_report_witness:
  "find (\<lambda>w. wallet_id w = 1 \<and> user w = 1) (wallets chain_db) = Some hot_wallet
   \<and> untampered run_lib run_env ([tx_a] @ [tx_b, tx_c])
   \<and> filter (\<lambda>t. tx_wallet t = 1) (transactions chain_db) = [tx_a] @ [tx_b, tx_c]
   \<and> (\<exists>r. verifyTransactionChain run_lib run_env ''2024-03-01T00:00:00.000Z'' chain_db 1 1 = Inr r
          \<and> chainValid r \<and> totalTransactions r = 3
          \<and> (\<forall>i < 3. integrityValid (results r ! i) \<and> chainLinkValid (results r ! i)))
   \<and> filter (\<lambda>t. tx_wallet t = 1) (transactions spliced_db) = [tx_a] @ tx_x # [tx_b, tx_c]
   \<and> previousTxHash tx_x \<noteq> Some (tx_integrityHash (last [tx_a]))
   \<and> (\<exists>r. verifyTransactionChain run_lib run_env ''2024-03-01T00:00:00.000Z'' spliced_db 1 1 = Inr r
          \<and> \<not> chainValid r
          \<and> integrityValid (results r ! 0) \<and> chainLinkValid (results r ! 0)
          \<and> \<not> chainLinkValid (results r ! 1)
          \<and> integrityValid (results r ! 3) \<and> chainLinkValid (results r ! 3))"
proof -
  have owner1: "find (\<lambda>w. wallet_id w = 1 \<and> user w = 1) (wallets chain_db) = Some hot_wallet"
    by (simp add: chain_db_def hot_wallet_def)
  have owner2: "find (\<lambda>w. wallet_id w = 1 \<and> user w = 1) (wallets spliced_db) = Some hot_wallet"
    by (simp add: spliced_db_def hot_wallet_def)
  have unt: "untampered run_lib run_env ([tx_a] @ [tx_b, tx_c])"
    by (simp add: chain_eval)
  have txs1: "filter (\<lambda>t. tx_wallet t = 1) (transactions chain_db) = [tx_a] @ [tx_b, tx_c]"
    by (simp add: chain_db_def tx_a_def tx_b_def tx_c_def run_tx_def)
  have txs2: "filter (\<lambda>t. tx_wallet t = 1) (transactions spliced_db) = [tx_a] @ tx_x # [tx_b, tx_c]"
    by (simp add: spliced_db_def tx_a_def tx_b_def tx_c_def tx_x_def run_tx_def)
  have wrong: "previousTxHash tx_x \<noteq> Some (tx_integrityHash (last [tx_a]))"
    by (simp add: tx_a_def tx_x_def run_tx_def)
  from verifyChain_report [OF owner1 unt, of "''2024-03-01T00:00:00.000Z''" tx_x] txs1
  have part1: "\<exists>r. verifyTransactionChain run_lib run_env ''2024-03-01T00:00:00.000Z'' chain_db 1 1 = Inr r
          \<and> chainValid r \<and> totalTransactions r = 3
          \<and> (\<forall>i < 3. integrityValid (results r ! i) \<and> chainLinkValid (results r ! i))"
    by (auto simp add: numeral_3_eq_3)
  from verifyChain_report [OF owner2 unt, of "''2024-03-01T00:00:00.000Z''" tx_x] txs2 wrong
  obtain r where r: "verifyTransactionChain run_lib run_env ''2024-03-01T00:00:00.000Z'' spliced_db 1 1 = Inr r"
    and inv: "\<not> chainValid r"
    and before: "\<forall>i < length [tx_a]. integrityValid (results r ! i) \<and> chainLinkValid (results r ! i)"
    and at: "\<not> chainLinkValid (results r ! length [tx_a])"
    and after: "\<forall>i. length [tx_a] + 1 < i \<and> i \<le> length ([tx_a] @ [tx_b, tx_c]) \<longrightarrow>
                  integrityValid (results r ! i) \<and> chainLinkValid (results r ! i)"
    by auto
  from before have "integrityValid (results r ! 0) \<and> chainLinkValid (results r ! 0)" by simp
  moreover from at have "\<not> chainLinkValid (results r ! 1)" by simp
  moreover from after have "integrityValid (results r ! 3) \<and> chainLinkValid (results r ! 3)" by simp
  ultimately have part2: "\<exists>r. verifyTransactionChain run_lib run_env ''2024-03-01T00:00:00.000Z'' spliced_db 1 1 = Inr r
          \<and> \<not> chainValid r
          \<and> integrityValid (results r ! 0) \<and> chainLinkValid (results r ! 0)
          \<and> \<not> chainLinkValid (results r ! 1)
          \<and> integrityValid (results r ! 3) \<and> chainLinkValid (results r ! 3)"
    using r inv by blast
  from owner1 unt txs1 part1 txs2 wrong part2 show ?thesis by blast
qed

text \<open>
  The claim as stated fails: with \<open>tx_x\<close> spliced in at position 1 of a chain of
  three, the entry at position 3 is reported valid in both respects.
\<close>

theorem verifyChain_later_entries_counterexample:
  "untampered run_lib run_env [tx_a, tx_b, tx_c]
   \<and> transactions chain_db = [tx_a] @ [tx_b, tx_c]
   \<and> transactions spliced_db = [tx_a] @ tx_x # [tx_b, tx_c]
   \<and> previousTxHash tx_x \<noteq> Some (tx_integrityHash tx_a)
   \<and> report_flags (verifyTransactionChain run_lib run_env ''2024-03-01T00:00:00.000Z'' spliced_db 1 1)
       = Some (False, [(True, True), (True, False), (True, False), (True, True)])"
  by (simp add: chain_eval)


subsection \<open>Wallet creation\<close>

lemma Wallet_create_Inr:
  assumes "Wallet_create lib e drw uid nm descr kp st col enc d = (Inr w, d')"
  shows "d' = d\<lparr>wallets := wallets d @ [w]\<rparr>
       \<and> Option.bind st parse_storageType = Some (storageType w)
       \<and> encryptedPrivateKey w = map_option encryptedData enc
       \<and> iv (encryptionMeta w) = map_option enc_iv enc
       \<and> authTag (encryptionMeta w) = map_option enc_authTag enc"
  using assms
  by (auto simp add: Wallet_create_def Let_def split: option.splits if_splits)

lemma Wallet_create_key_independent:
  "Wallet_create lib e (drw\<lparr>wd_privateKey := k\<rparr>) uid nm descr
     (kp\<lparr>kp_privateKey := k', kp_privateKeyWIF := wif'\<rparr>) st col enc d
   = Wallet_create lib e drw uid nm descr kp st col enc d"
  by (auto simp add: Wallet_create_def Let_def split: option.splits)

lemma parse_storageType_hot: "parse_storageType st = Some Hot \<longleftrightarrow> st = ''hot''"
  by (auto simp add: parse_storageType_def)

lemma parse_storageType_cold: "parse_storageType st = Some Cold \<longleftrightarrow> st = ''cold''"
  by (auto simp add: parse_storageType_def)

lemma createWallet_with_Inr:
  assumes "succeeded (fst (createWallet_with lib e drw req kp d))"
  shows "\<exists>w resp. createWallet_with lib e drw req kp d = (Inr resp, d\<lparr>wallets := wallets d @ [w]\<rparr>)
       \<and> cwr_wallet resp = w
       \<and> (encryptedPrivateKey w \<noteq> None \<longleftrightarrow> storageType w = Hot)
       \<and> (iv (encryptionMeta w) \<noteq> None \<longleftrightarrow> storageType w = Hot)
       \<and> (authTag (encryptionMeta w) \<noteq> None \<longleftrightarrow> storageType w = Hot)
       \<and> (cwr_privateKey resp \<noteq> None \<longleftrightarrow> storageType w = Cold)
       \<and> (storageType w = Cold \<longrightarrow> cwr_privateKey resp = Some (kp_privateKey kp)
             \<and> cw_storageType req = Given ''cold'')"
proof -
  define st where "st = (case cw_storageType req of
                      Undefined \<Rightarrow> Some ''hot'' | Null \<Rightarrow> None | Given s \<Rightarrow> Some s)"
  define descr where "descr = (case js_or (cw_description req) (Some []) of Some s \<Rightarrow> s | None \<Rightarrow> [])"
  define col where "col = (case js_or (cw_color req) None of
                   Some c \<Rightarrow> c | None \<Rightarrow> generateRandomColor (wd_color drw))"
  define encR where "encR = (if st = Some ''hot''
                  then map_sum id Some (encryptPrivateKey lib e (wd_iv drw) (kp_privateKey kp))
                  else Inr None)"
  have unfold: "createWallet_with lib e drw req kp d =
      (case encR of
           Inl err \<Rightarrow> (Inl (WalletCreationFailed err), d)
         | Inr enc \<Rightarrow>
             (case Wallet_create lib e drw (cw_userId req) (cw_name req) descr kp st col enc d of
                (Inl err, d') \<Rightarrow> (Inl (WalletCreationFailed err), d')
              | (Inr w, d') \<Rightarrow>
                  (Inr \<lparr> cwr_wallet = w,
                         cwr_message =
                           (if st = Some ''cold''
                            then ''IMPORTANT: Save your private key securely. It will NEVER be shown again!''
                            else ''Wallet created successfully. Private key is securely encrypted.''),
                         cwr_privateKey =
                           (if st = Some ''cold'' then Some (kp_privateKey kp) else None),
                         cwr_privateKeyWIF =
                           (if st = Some ''cold'' then Some (kp_privateKeyWIF kp)
                            else None) \<rparr>,
                   d')))"
    unfolding createWallet_with_def Let_def st_def descr_def col_def encR_def by (rule refl)
  from assms unfold obtain enc w d' where
    encR: "encR = Inr enc"
    and wc: "Wallet_create lib e drw (cw_userId req) (cw_name req) descr kp st col enc d = (Inr w, d')"
    by (auto split: sum.splits prod.splits)
  from Wallet_create_Inr [OF wc] have d': "d' = d\<lparr>wallets := wallets d @ [w]\<rparr>"
    and st: "Option.bind st parse_storageType = Some (storageType w)"
    and f1: "encryptedPrivateKey w = map_option encryptedData enc"
    and f2: "iv (encryptionMeta w) = map_option enc_iv enc"
    and f3: "authTag (encryptionMeta w) = map_option enc_authTag enc" by simp_all
  from encR have enc: "enc \<noteq> None \<longleftrightarrow> st = Some ''hot''"
    by (cases "encryptPrivateKey lib e (wd_iv drw) (kp_privateKey kp)")
      (auto simp add: encR_def split: if_splits)
  from st have hot: "storageType w = Hot \<longleftrightarrow> st = Some ''hot''"
    and cold: "storageType w = Cold \<longleftrightarrow> st = Some ''cold''"
    by (cases st; auto simp add: parse_storageType_def split: if_splits)+
  from cold have req: "storageType w = Cold \<longrightarrow> cw_storageType req = Given ''cold''"
    by (auto simp add: st_def split: js_arg.splits)
  show ?thesis
    using unfold encR wc d' f1 f2 f3 enc hot cold req by auto
qed

lemma createWallet_with_cold_key_independent:
  assumes "cw_storageType req = Given ''cold''"
  shows "snd (createWallet_with lib e (drw\<lparr>wd_privateKey := k\<rparr>) req
                (kp\<lparr>kp_privateKey := k', kp_privateKeyWIF := wif'\<rparr>) d)
         = snd (createWallet_with lib e drw req kp d)"
  using assms
  by (simp add: createWallet_with_def Wallet_create_key_independent Let_def
      cong: option.case_cong split: sum.splits prod.splits)

lemma generateKeyPair_same_public:
  assumes "ec_publicKey lib k = ec_publicKey lib k0"
  shows "generateKeyPair lib e k
         = (generateKeyPair lib e k0)\<lparr>kp_privateKey := hex_encode k,
                                         kp_privateKeyWIF := ec_toWIF lib (getNetwork e) k\<rparr>"
  using assms by (simp add: generateKeyPair_def Let_def)

text \<open>
  Claim C6. A wallet record that \<^verbatim>\<open>createWallet\<close> stores has an encrypted private key,
  an IV and an authentication tag exactly when its storage type is hot. For a cold
  wallet the database that the creation leaves does not depend on the private key: it
  is the same whatever private key is drawn and whatever the private key and the WIF
  of the key pair are, as long as the public key, the address and the network are the
  same; in particular two drawn private keys with the same public key leave the same
  database. The private key is in the response of the creation, and only for a cold
  wallet.
\<close>

theorem createWallet_key_storage:
  assumes ok: "succeeded (fst (createWallet lib e drw req d))"
  shows "\<exists>w resp. createWallet lib e drw req d = (Inr resp, d\<lparr>wallets := wallets d @ [w]\<rparr>)
       \<and> cwr_wallet resp = w
       \<and> (encryptedPrivateKey w \<noteq> None \<longleftrightarrow> storageType w = Hot)
       \<and> (iv (encryptionMeta w) \<noteq> None \<longleftrightarrow> storageType w = Hot)
       \<and> (authTag (encryptionMeta w) \<noteq> None \<longleftrightarrow> storageType w = Hot)
       \<and> (cwr_privateKey resp \<noteq> None \<longleftrightarrow> storageType w = Cold)
       \<and> (storageType w = Cold \<longrightarrow>
             cwr_privateKey resp = Some (hex_encode (wd_privateKey drw))
             \<and> (\<forall>k k' wif'.
                  snd (createWallet_with lib e (drw\<lparr>wd_privateKey := k\<rparr>) req
                         ((generateKeyPair lib e (wd_privateKey drw))
                            \<lparr>kp_privateKey := k', kp_privateKeyWIF := wif'\<rparr>) d)
                  = d\<lparr>wallets := wallets d @ [w]\<rparr>)
             \<and> (\<forall>k. ec_publicKey lib k = ec_publicKey lib (wd_privateKey drw) \<longrightarrow>
                  snd (createWallet lib e (drw\<lparr>wd_privateKey := k\<rparr>) req d)
                  = d\<lparr>wallets := wallets d @ [w]\<rparr>))"
proof -
  let ?kp = "generateKeyPair lib e (wd_privateKey drw)"
  from ok have "succeeded (fst (createWallet_with lib e drw req ?kp d))"
    by (simp add: createWallet_def)
  from createWallet_with_Inr [OF this] obtain w resp where
    run: "createWallet_with lib e drw req ?kp d = (Inr resp, d\<lparr>wallets := wallets d @ [w]\<rparr>)"
    and facts: "cwr_wallet resp = w"
      "encryptedPrivateKey w \<noteq> None \<longleftrightarrow> storageType w = Hot"
      "iv (encryptionMeta w) \<noteq> None \<longleftrightarrow> storageType w = Hot"
      "authTag (encryptionMeta w) \<noteq> None \<longleftrightarrow> storageType w = Hot"
      "cwr_privateKey resp \<noteq> None \<longleftrightarrow> storageType w = Cold"
    and cold: "storageType w = Cold \<longrightarrow> cwr_privateKey resp = Some (kp_privateKey ?kp)
             \<and> cw_storageType req = Given ''cold''"
    by blast
  have key: "kp_privateKey ?kp = hex_encode (wd_privateKey drw)"
    by (simp add: generateKeyPair_def Let_def)
  have indep: "storageType w = Cold \<longrightarrow>
      (\<forall>k k' wif'. snd (createWallet_with lib e (drw\<lparr>wd_privateKey := k\<rparr>) req
                          (?kp\<lparr>kp_privateKey := k', kp_privateKeyWIF := wif'\<rparr>) d)
                  = d\<lparr>wallets := wallets d @ [w]\<rparr>)"
    using cold run by (simp add: createWallet_with_cold_key_independent)
  have drawn: "storageType w = Cold \<longrightarrow>
      (\<forall>k. ec_publicKey lib k = ec_publicKey lib (wd_privateKey drw) \<longrightarrow>
           snd (createWallet lib e (drw\<lparr>wd_privateKey := k\<rparr>) req d)
           = d\<lparr>wallets := wallets d @ [w]\<rparr>)"
  proof (intro impI allI)
    fix k
    assume c: "storageType w = Cold"
      and pk: "ec_publicKey lib k = ec_publicKey lib (wd_privateKey drw)"
    from pk have "createWallet lib e (drw\<lparr>wd_privateKey := k\<rparr>) req d
        = createWallet_with lib e (drw\<lparr>wd_privateKey := k\<rparr>) req
            (?kp\<lparr>kp_privateKey := hex_encode k,
                  kp_privateKeyWIF := ec_toWIF lib (getNetwork e) k\<rparr>) d"
      by (simp add: createWallet_def generateKeyPair_same_public [of lib k "wd_privateKey drw"])
    with c indep show "snd (createWallet lib e (drw\<lparr>wd_privateKey := k\<rparr>) req d)
        = d\<lparr>wallets := wallets d @ [w]\<rparr>" by simp
  qed
  from run facts cold key indep drawn show ?thesis
    by (simp add: createWallet_def)
qed

theorem createWallet_key_storage_witness:
  "succeeded (fst (createWallet run_lib run_env (run_wallet_draws 1 [1])
                     (run_create_request ''cold'') empty_db))
   \<and> (\<exists>w resp. createWallet run_lib run_env (run_wallet_draws 1 [1])
                    (run_create_request ''cold'') empty_db
                  = (Inr resp, empty_db\<lparr>wallets := wallets empty_db @ [w]\<rparr>)
          \<and> w = cold_wallet \<and> storageType w = Cold
          \<and> encryptedPrivateKey w = None
          \<and> iv (encryptionMeta w) = None \<and> authTag (encryptionMeta w) = None
          \<and> cwr_privateKey resp = Some ''01'')
   \<and> succeeded (fst (createWallet run_lib run_env (run_wallet_draws 1 [1])
                     (run_create_request ''hot'') empty_db))
   \<and> (\<exists>w resp. createWallet run_lib run_env (run_wallet_draws 1 [1])
                    (run_create_request ''hot'') empty_db
                  = (Inr resp, empty_db\<lparr>wallets := wallets empty_db @ [w]\<rparr>)
          \<and> w = hot_wallet \<and> storageType w = Hot
          \<and> encryptedPrivateKey w \<noteq> None
          \<and> iv (encryptionMeta w) \<noteq> None \<and> authTag (encryptionMeta w) \<noteq> None
          \<and> cwr_privateKey resp = None)
   \<and> succeeded (fst (createWallet first_byte_lib run_env (run_wallet_draws 1 [1])
                     (run_create_request ''cold'') empty_db))
   \<and> snd (createWallet first_byte_lib run_env (run_wallet_draws 1 [1])
            (run_create_request ''cold'') empty_db) = cold_db
   \<and> [1, 9] \<noteq> wd_privateKey (run_wallet_draws 1 [1])
   \<and> ec_publicKey first_byte_lib [1, 9]
       = ec_publicKey first_byte_lib (wd_privateKey (run_wallet_draws 1 [1]))
   \<and> snd (createWallet first_byte_lib run_env
            ((run_wallet_draws 1 [1])\<lparr>wd_privateKey := [1, 9]\<rparr>)
            (run_create_request ''cold'') empty_db) = cold_db
   \<and> snd (createWallet_with first_byte_lib run_env
            ((run_wallet_draws 1 [1])\<lparr>wd_privateKey := [5]\<rparr>) (run_create_request ''cold'')
            ((generateKeyPair first_byte_lib run_env (wd_privateKey (run_wallet_draws 1 [1])))
               \<lparr>kp_privateKey := ''05'', kp_privateKeyWIF := ''c05''\<rparr>) empty_db) = cold_db"
proof -
  have ok_cold: "succeeded (fst (createWallet run_lib run_env (run_wallet_draws 1 [1])
      (run_create_request ''cold'') empty_db))"
    unfolding createWallet_cold by simp
  have ok_hot: "succeeded (fst (createWallet run_lib run_env (run_wallet_draws 1 [1])
      (run_create_request ''hot'') empty_db))"
    unfolding createWallet_hot by simp
  have cold: "storageType cold_wallet = Cold" by (simp add: cold_wallet_def)
  have hot: "storageType hot_wallet = Hot" by (simp add: hot_wallet_def)
  from createWallet_key_storage [OF ok_cold] obtain w resp where
    "createWallet run_lib run_env (run_wallet_draws 1 [1]) (run_create_request ''cold'') empty_db
       = (Inr resp, empty_db\<lparr>wallets := wallets empty_db @ [w]\<rparr>)"
    "cwr_wallet resp = w"
    "encryptedPrivateKey w \<noteq> None \<longleftrightarrow> storageType w = Hot"
    "iv (encryptionMeta w) \<noteq> None \<longleftrightarrow> storageType w = Hot"
    "authTag (encryptionMeta w) \<noteq> None \<longleftrightarrow> storageType w = Hot"
    "cwr_privateKey resp \<noteq> None \<longleftrightarrow> storageType w = Cold"
    by blast
  with cold have part_cold: "\<exists>w resp. createWallet run_lib run_env (run_wallet_draws 1 [1])
                    (run_create_request ''cold'') empty_db
                  = (Inr resp, empty_db\<lparr>wallets := wallets empty_db @ [w]\<rparr>)
          \<and> w = cold_wallet \<and> storageType w = Cold
          \<and> encryptedPrivateKey w = None
          \<and> iv (encryptionMeta w) = None \<and> authTag (encryptionMeta w) = None
          \<and> cwr_privateKey resp = Some ''01''"
    unfolding createWallet_cold by auto
  from createWallet_key_storage [OF ok_hot] obtain w resp where
    "createWallet run_lib run_env (run_wallet_draws 1 [1]) (run_create_request ''hot'') empty_db
       = (Inr resp, empty_db\<lparr>wallets := wallets empty_db @ [w]\<rparr>)"
    "cwr_wallet resp = w"
    "encryptedPrivateKey w \<noteq> None \<longleftrightarrow> storageType w = Hot"
    "iv (encryptionMeta w) \<noteq> None \<longleftrightarrow> storageType w = Hot"
    "authTag (encryptionMeta w) \<noteq> None \<longleftrightarrow> storageType w = Hot"
    "cwr_privateKey resp \<noteq> None \<longleftrightarrow> storageType w = Cold"
    by blast
  with hot have part_hot: "\<exists>w resp. createWallet run_lib run_env (run_wallet_draws 1 [1])
                    (run_create_request ''hot'') empty_db
                  = (Inr resp, empty_db\<lparr>wallets := wallets empty_db @ [w]\<rparr>)
          \<and> w = hot_wallet \<and> storageType w = Hot
          \<and> encryptedPrivateKey w \<noteq> None
          \<and> iv (encryptionMeta w) \<noteq> None \<and> authTag (encryptionMeta w) \<noteq> None
          \<and> cwr_privateKey resp = None"
    unfolding createWallet_hot by auto
  let ?drw = "run_wallet_draws 1 [1]" and ?req = "run_create_request ''cold''"
  have ok: "succeeded (fst (createWallet first_byte_lib run_env ?drw ?req empty_db))"
    unfolding createWallet_first_byte by simp
  have db: "cold_db = empty_db\<lparr>wallets := wallets empty_db @ [cold_wallet]\<rparr>"
    by (simp add: cold_db_def empty_db_def)
  have keys: "[1, 9] \<noteq> wd_privateKey ?drw"
    "ec_publicKey first_byte_lib [1, 9] = ec_publicKey first_byte_lib (wd_privateKey ?drw)"
    by (simp_all add: first_byte_lib_def run_lib_def run_wallet_draws_def)
  from createWallet_key_storage [OF ok] obtain w resp where
    run: "createWallet first_byte_lib run_env ?drw ?req empty_db
         = (Inr resp, empty_db\<lparr>wallets := wallets empty_db @ [w]\<rparr>)"
    and indep: "storageType w = Cold \<longrightarrow>
        cwr_privateKey resp = Some (hex_encode (wd_privateKey ?drw))
        \<and> (\<forall>k k' wif'.
             snd (createWallet_with first_byte_lib run_env (?drw\<lparr>wd_privateKey := k\<rparr>) ?req
                    ((generateKeyPair first_byte_lib run_env (wd_privateKey ?drw))
                       \<lparr>kp_privateKey := k', kp_privateKeyWIF := wif'\<rparr>) empty_db)
             = empty_db\<lparr>wallets := wallets empty_db @ [w]\<rparr>)
        \<and> (\<forall>k. ec_publicKey first_byte_lib k = ec_publicKey first_byte_lib (wd_privateKey ?drw) \<longrightarrow>
             snd (createWallet first_byte_lib run_env (?drw\<lparr>wd_privateKey := k\<rparr>) ?req empty_db)
             = empty_db\<lparr>wallets := wallets empty_db @ [w]\<rparr>)"
    by blast
  from run have w: "w = cold_wallet"
    unfolding createWallet_first_byte by (simp add: cold_db_def empty_db_def)
  from indep cold keys(2)
  have part_indep: "snd (createWallet first_byte_lib run_env ?drw ?req empty_db) = cold_db
      \<and> snd (createWallet first_byte_lib run_env (?drw\<lparr>wd_privateKey := [1, 9]\<rparr>) ?req empty_db)
          = cold_db
      \<and> snd (createWallet_with first_byte_lib run_env (?drw\<lparr>wd_privateKey := [5]\<rparr>) ?req
               ((generateKeyPair first_byte_lib run_env (wd_privateKey ?drw))
                  \<lparr>kp_privateKey := ''05'', kp_privateKeyWIF := ''c05''\<rparr>) empty_db) = cold_db"
    unfolding w db [symmetric] using run [unfolded w db [symmetric]] by simp
  from ok_cold part_cold ok_hot part_hot ok keys part_indep show ?thesis by blast
qed


section \<open>Sending\<close>

subsection \<open>Lookups and updates of wallets\<close>

lemma find_Some_mem: "find P xs = Some x \<Longrightarrow> x \<in> set xs \<and> P x"
  by (induction xs) (auto split: if_splits)

lemma find_by_id_distinct:
  "distinct (map wallet_id ws) \<Longrightarrow> w \<in> set ws
   \<Longrightarrow> find (\<lambda>x. wallet_id x = wallet_id w) ws = Some w"
  by (induction ws) (auto simp add: image_iff)

lemma find_replace_other:
  "i \<noteq> wallet_id w' \<Longrightarrow>
   find (\<lambda>x. wallet_id x = i) (replace_wallet w' ws) = find (\<lambda>x. wallet_id x = i) ws"
  by (induction ws) auto

lemma find_replace_same:
  "find (\<lambda>x. wallet_id x = wallet_id w') ws = Some w
   \<Longrightarrow> find (\<lambda>x. wallet_id x = wallet_id w') (replace_wallet w' ws) = Some w'"
  by (induction ws) (auto split: if_splits)

lemma find_address_replace:
  "find (\<lambda>x. wallet_id x = wallet_id w') ws = Some w \<Longrightarrow> publicAddress w' \<noteq> a
   \<Longrightarrow> publicAddress w \<noteq> a
   \<Longrightarrow> find (\<lambda>x. publicAddress x = a) (replace_wallet w' ws) = find (\<lambda>x. publicAddress x = a) ws"
  by (induction ws) (auto split: if_splits)

lemma replace_wallet_ids: "map wallet_id (replace_wallet w' ws) = map wallet_id ws"
  by (induction ws) auto

lemma findActiveWallet_findById:
  assumes "distinct (map wallet_id (wallets d))" and "findActiveWallet d i u = Some s"
  shows "findById d i = Some s"
proof -
  from assms(2) have "s \<in> set (wallets d)" and "wallet_id s = i"
    using find_Some_mem [of "\<lambda>w. wallet_id w = i \<and> user w = u \<and> status w = Active" "wallets d" s]
    by (auto simp add: findActiveWallet_def)
  with assms(1) show ?thesis
    using find_by_id_distinct [of "wallets d" s] by (simp add: findById_def)
qed

subsection \<open>The writes\<close>

lemma Transaction_create_Inl:
  "Transaction_create lib e now acc doc d = (Inl err, d') \<Longrightarrow> d' = d"
  by (auto simp add: Transaction_create_def Let_def split: if_splits)

lemma Transaction_create_Inr:
  assumes "Transaction_create lib e now acc doc d = (Inr t, d')"
  shows "d' = d\<lparr>transactions := transactions d @ [t]\<rparr>"
    and "txId t = txId doc" and "tx_status t = tx_status doc" and "tx_type t = tx_type doc"
    and "confirmations t = confirmations doc" and "confirmedAt t = confirmedAt doc"
    and "tx_wallet t = tx_wallet doc"
    and "txId doc \<notin> set (map txId (transactions d))"
    and "acc" and "transaction_valid (doc\<lparr>memo := trim (memo doc)\<rparr>)"
  using assms
  by (auto simp add: Transaction_create_def Let_def split: if_splits)

lemma Transaction_create_rejected:
  assumes "Transaction_create lib e now True doc d = (Inr t, d')"
  shows "Transaction_create lib e now False doc d = (Inl StorageFailure, d)"
  using assms
  by (auto simp add: Transaction_create_def Let_def split: if_splits)

lemma updateBalance_Inl:
  "updateBalance lib e now acc i amt oper d = (Inl err, d') \<Longrightarrow> d' = d"
  by (auto simp add: updateBalance_def wallet_save_def Let_def split: option.splits if_splits)

lemma updateBalance_Inr:
  assumes "updateBalance lib e now acc i amt oper d = (Inr w', d')"
  obtains w where "findById d i = Some w"
    and "d' = d\<lparr>wallets := replace_wallet w' (wallets d)\<rparr>"
    and "wallet_id w' = i" and "wallet_id w = i"
    and "publicAddress w' = publicAddress w"
    and "balance w' = (case oper of Subtract \<Rightarrow> balance w - amt | Add \<Rightarrow> balance w + amt)"
proof -
  from assms obtain w where w: "findById d i = Some w"
    by (auto simp add: updateBalance_def split: option.splits)
  then have i: "wallet_id w = i"
    using find_Some_mem [of "\<lambda>x. wallet_id x = i" "wallets d" w] by (simp add: findById_def)
  from assms w have d': "d' = d\<lparr>wallets := replace_wallet w' (wallets d)\<rparr>"
    by (auto simp add: updateBalance_def wallet_save_def Let_def split: if_splits)
  from assms w have same: "wallet_id w' = wallet_id w" "publicAddress w' = publicAddress w"
    by (auto simp add: updateBalance_def wallet_save_def Let_def split: if_splits)
  from assms w
  have bal: "balance w' = (case oper of Subtract \<Rightarrow> balance w - amt | Add \<Rightarrow> balance w + amt)"
    by (auto simp add: updateBalance_def wallet_save_def Let_def split: if_splits)
  from same i have i': "wallet_id w' = i" by simp
  show thesis by (rule that [OF w d' i' i same(2) bal])
qed

lemma updateBalance_rejected:
  assumes "updateBalance lib e now True i amt oper d = (Inr w', d')"
  shows "updateBalance lib e now False i amt oper d = (Inl StorageFailure, d)"
  using assms
  by (auto simp add: updateBalance_def wallet_save_def Let_def split: option.splits if_splits)


subsection \<open>The steps of a send\<close>

lemma createTransaction_succeeded:
  assumes "succeeded (fst (createTransaction lib e drw ok req d))"
  obtains s k and sr :: signature_result and sent d1 s' d2 d3 where
      "findActiveWallet d (req_walletId req) (req_userId req) = Some s"
      "validateAddress lib e (req_toAddress req)"
      "publicAddress s \<noteq> req_toAddress req"
      "req_amount req + 10000 \<le> balance s"
      "signing_key lib e s (req_privateKey req) = Inr k"
      "signTransaction lib k
         \<lparr> td_txId = generateTxId (drawn_txId drw), td_fromAddress = publicAddress s,
           td_toAddress = req_toAddress req, td_amount = req_amount req,
           td_fee = 10000, td_timestamp = drawn_timestamp drw,
           td_previousTxHash = generateChainHash d (req_walletId req) \<rparr> = Inr sr"
      "Transaction_create lib e (drawn_now drw) (ok WriteSendRecord)
         (send_record drw req s (generateTxId (drawn_txId drw)) 10000
            (balance s - (req_amount req + 10000)) (sr_signature sr)
            (generateChainHash d (req_walletId req))) d = (Inr sent, d1)"
      "updateBalance lib e (drawn_now drw) (ok WriteSenderDebit) (req_walletId req)
         (req_amount req + 10000) Subtract d1 = (Inr s', d2)"
      "credit_recipient lib e drw ok req s sent (generateTxId (drawn_txId drw)) d2 = (Inr (), d3)"
      "createTransaction lib e drw ok req d
        = (Inr \<lparr> res_transaction = sent,
                 res_message = ''Transaction completed successfully'',
                 res_newBalance = balance s - (req_amount req + 10000) \<rparr>, d3)"
proof -
  let ?tid = "generateTxId (drawn_txId drw)"
  let ?prev = "generateChainHash d (req_walletId req)"
  let ?total = "req_amount req + 10000"
  from assms obtain s where s: "findActiveWallet d (req_walletId req) (req_userId req) = Some s"
    by (auto simp add: createTransaction_def split: option.splits)
  from assms s have va: "validateAddress lib e (req_toAddress req)"
    and diff: "publicAddress s \<noteq> req_toAddress req"
    and bal: "\<not> balance s < ?total"
    by (auto simp add: createTransaction_def Let_def split: if_splits)
  from assms s va diff bal obtain k where k: "signing_key lib e s (req_privateKey req) = Inr k"
    by (auto simp add: createTransaction_def Let_def split: sum.splits)
  let ?data = "\<lparr> td_txId = ?tid, td_fromAddress = publicAddress s,
                 td_toAddress = req_toAddress req, td_amount = req_amount req,
                 td_fee = 10000, td_timestamp = drawn_timestamp drw,
                 td_previousTxHash = ?prev \<rparr>"
  from assms s va diff bal k obtain sr where sr: "signTransaction lib k ?data = Inr sr"
    by (auto simp add: createTransaction_def Let_def split: sum.splits)
  let ?doc = "send_record drw req s ?tid 10000 (balance s - ?total) (sr_signature sr) ?prev"
  from assms s va diff bal k sr obtain sent d1 where
    sent: "Transaction_create lib e (drawn_now drw) (ok WriteSendRecord) ?doc d = (Inr sent, d1)"
    by (auto simp add: createTransaction_def Let_def split: sum.splits prod.splits)
  from assms s va diff bal k sr sent obtain s' d2 where
    debit: "updateBalance lib e (drawn_now drw) (ok WriteSenderDebit) (req_walletId req)
              ?total Subtract d1 = (Inr s', d2)"
    by (auto simp add: createTransaction_def Let_def split: sum.splits prod.splits)
  from assms s va diff bal k sr sent debit obtain u d3 where
    credit: "credit_recipient lib e drw ok req s sent ?tid d2 = (Inr u, d3)"
    by (auto simp add: createTransaction_def Let_def split: sum.splits prod.splits)
  from s va diff bal k sr sent debit credit
  have result: "createTransaction lib e drw ok req d
        = (Inr \<lparr> res_transaction = sent,
                 res_message = ''Transaction completed successfully'',
                 res_newBalance = balance s - ?total \<rparr>, d3)"
    by (simp add: createTransaction_def Let_def)
  from bal have bal': "?total \<le> balance s" by simp
  from credit have credit': "credit_recipient lib e drw ok req s sent ?tid d2 = (Inr (), d3)"
    by simp
  show thesis by (rule that [OF s va diff bal' k sr sent debit credit' result])
qed

lemma credit_recipient_unknown:
  "getWalletByAddress d (req_toAddress req) = None
   \<Longrightarrow> credit_recipient lib e drw ok req s sent tid d = (Inr (), d)"
  by (simp add: credit_recipient_def)

lemma credit_recipient_known:
  assumes "getWalletByAddress d (req_toAddress req) = Some rw"
    and "credit_recipient lib e drw ok req s sent tid d = (Inr u, d')"
  shows "\<exists>rcv d1 rw'.
      Transaction_create lib e (drawn_now drw) (ok WriteReceiveRecord)
        (receive_record drw req s rw sent tid (generateChainHash d (wallet_id rw))) d
        = (Inr rcv, d1)
    \<and> updateBalance lib e (drawn_now drw) (ok WriteRecipientCredit) (wallet_id rw)
        (req_amount req) Add d1 = (Inr rw', d')"
  using assms
  by (auto simp add: credit_recipient_def split: sum.splits prod.splits)

text \<open>What the debit of the sender leaves, given the steps of a successful send.\<close>

lemma sender_debited:
  assumes ids: "distinct (map wallet_id (wallets d))"
    and s: "findActiveWallet d i u = Some s"
    and sent: "Transaction_create lib e now acc1 doc d = (Inr sent, d1)"
    and debit: "updateBalance lib e now acc2 i amt Subtract d1 = (Inr s', d2)"
  shows "findById d i = Some s"
    and "wallets d2 = replace_wallet s' (wallets d)"
    and "transactions d2 = transactions d @ [sent]"
    and "wallet_id s' = i" and "wallet_id s = i"
    and "publicAddress s' = publicAddress s"
    and "balance s' = balance s - amt"
    and "findById d2 i = Some s'"
proof -
  from ids s show fs: "findById d i = Some s" by (rule findActiveWallet_findById)
  from Transaction_create_Inr(1) [OF sent] have d1: "d1 = d\<lparr>transactions := transactions d @ [sent]\<rparr>" .
  from debit obtain w where
    w: "findById d1 i = Some w" and d2: "d2 = d1\<lparr>wallets := replace_wallet s' (wallets d1)\<rparr>"
    and id: "wallet_id s' = i" "wallet_id w = i"
    and addr: "publicAddress s' = publicAddress w"
    and bal: "balance s' = (case Subtract of Subtract \<Rightarrow> balance w - amt | Add \<Rightarrow> balance w + amt)"
    by (rule updateBalance_Inr)
  from w d1 fs have ws: "w = s" by (simp add: findById_def)
  from d1 d2 show "wallets d2 = replace_wallet s' (wallets d)" by simp
  from d1 d2 show "transactions d2 = transactions d @ [sent]" by simp
  from id ws show "wallet_id s' = i" and "wallet_id s = i" by simp_all
  from addr ws show "publicAddress s' = publicAddress s" by simp
  from bal ws show "balance s' = balance s - amt" by simp
  from fs id ws d1 d2 show "findById d2 i = Some s'"
    using find_replace_same [of s' "wallets d" s] by (simp add: findById_def)
qed

lemma updateBalance_transactions:
  "updateBalance lib e now acc i amt oper d = (r, d') \<Longrightarrow> transactions d' = transactions d"
  by (auto simp add: updateBalance_def wallet_save_def Let_def split: option.splits if_splits)

text \<open>
  A send either throws before its first write and leaves the database as it is, or
  reaches the writes, which are then all that decides the outcome.
\<close>

lemma createTransaction_writes:
  obtains (early) err where "createTransaction lib e drw ok req d = (Inl err, d)"
  | (writes) s and sr :: signature_result where
      "findActiveWallet d (req_walletId req) (req_userId req) = Some s"
      "publicAddress s \<noteq> req_toAddress req"
      "createTransaction lib e drw ok req d =
         (case Transaction_create lib e (drawn_now drw) (ok WriteSendRecord)
                 (send_record drw req s (generateTxId (drawn_txId drw)) 10000
                    (balance s - (req_amount req + 10000)) (sr_signature sr)
                    (generateChainHash d (req_walletId req))) d of
            (Inl err, d1) \<Rightarrow> (Inl err, d1)
          | (Inr sent, d1) \<Rightarrow>
              (case updateBalance lib e (drawn_now drw) (ok WriteSenderDebit)
                      (req_walletId req) (req_amount req + 10000) Subtract d1 of
                 (Inl err, d2) \<Rightarrow> (Inl err, d2)
               | (Inr _, d2) \<Rightarrow>
                   (case credit_recipient lib e drw ok req s sent
                           (generateTxId (drawn_txId drw)) d2 of
                      (Inl err, d3) \<Rightarrow> (Inl err, d3)
                    | (Inr _, d3) \<Rightarrow>
                        (Inr \<lparr> res_transaction = sent,
                               res_message = ''Transaction completed successfully'',
                               res_newBalance = balance s - (req_amount req + 10000) \<rparr>,
                         d3))))"
proof (cases "findActiveWallet d (req_walletId req) (req_userId req)")
  case None
  then have "createTransaction lib e drw ok req d = (Inl SenderWalletNotFound, d)"
    by (simp add: createTransaction_def)
  then show thesis by (rule early)
next
  case (Some s)
  let ?data = "\<lparr> td_txId = generateTxId (drawn_txId drw), td_fromAddress = publicAddress s,
                 td_toAddress = req_toAddress req, td_amount = req_amount req,
                 td_fee = 10000, td_timestamp = drawn_timestamp drw,
                 td_previousTxHash = generateChainHash d (req_walletId req) \<rparr>"
  show thesis
  proof (cases "validateAddress lib e (req_toAddress req)
      \<and> publicAddress s \<noteq> req_toAddress req \<and> \<not> balance s < req_amount req + 10000")
    case False
    with Some have "\<exists>err. createTransaction lib e drw ok req d = (Inl err, d)"
      by (auto simp add: createTransaction_def Let_def)
    then show thesis using early by blast
  next
    case checks: True
    show thesis
    proof (cases "signing_key lib e s (req_privateKey req)")
      case (Inl err)
      with Some checks have "createTransaction lib e drw ok req d = (Inl err, d)"
        by (simp add: createTransaction_def Let_def)
      then show thesis by (rule early)
    next
      case (Inr k)
      show thesis
      proof (cases "signTransaction lib k ?data")
        case (Inl err)
        with Some checks Inr have "createTransaction lib e drw ok req d = (Inl err, d)"
          by (simp add: createTransaction_def Let_def)
        then show thesis by (rule early)
      next
        case sig: (Inr sr)
        from checks have diff: "publicAddress s \<noteq> req_toAddress req" by simp
        from Some checks Inr sig show thesis
          by (intro writes [OF Some diff, of sr]) (simp add: createTransaction_def Let_def)
      qed
    qed
  qed
qed

lemma credit_recipient_transactions:
  assumes "credit_recipient lib e drw ok req s sent tid d = (r, d')"
  shows "transactions d' = transactions d
       \<or> (\<exists>t. transactions d' = transactions d @ [t]
             \<and> txId t = tid @ ''-receive'' \<and> tx_type t = Receive
             \<and> tx_status t = Confirmed \<and> confirmations t = 6
             \<and> confirmedAt t = Some (drawn_now drw)
             \<and> tid @ ''-receive'' \<notin> set (map txId (transactions d)))"
proof (cases "getWalletByAddress d (req_toAddress req)")
  case None
  with assms show ?thesis by (simp add: credit_recipient_def)
next
  case (Some rw)
  let ?doc = "receive_record drw req s rw sent tid (generateChainHash d (wallet_id rw))"
  obtain r1 d1 where c: "Transaction_create lib e (drawn_now drw) (ok WriteReceiveRecord) ?doc d
      = (r1, d1)" by (cases "Transaction_create lib e (drawn_now drw) (ok WriteReceiveRecord) ?doc d")
  show ?thesis
  proof (cases r1)
    case (Inl err)
    with c have "d1 = d" by (simp add: Transaction_create_Inl)
    with assms Some c Inl show ?thesis by (simp add: credit_recipient_def)
  next
    case (Inr t)
    with c have c': "Transaction_create lib e (drawn_now drw) (ok WriteReceiveRecord) ?doc d
      = (Inr t, d1)" by simp
    note f = Transaction_create_Inr [OF c']
    obtain r2 d2 where u: "updateBalance lib e (drawn_now drw) (ok WriteRecipientCredit)
        (wallet_id rw) (req_amount req) Add d1 = (r2, d2)"
      by (cases "updateBalance lib e (drawn_now drw) (ok WriteRecipientCredit)
        (wallet_id rw) (req_amount req) Add d1")
    from u have "transactions d2 = transactions d1" by (rule updateBalance_transactions)
    moreover from assms Some c' u have "d' = d2"
      by (auto simp add: credit_recipient_def split: sum.splits)
    ultimately have "transactions d' = transactions d @ [t]" using f(1) by simp
    with f(2-6,8) show ?thesis by (simp add: receive_record_def)
  qed
qed

text \<open>The transactions that a send adds, whatever its outcome.\<close>

lemma createTransaction_transactions:
  fixes lib e drw ok req d
  defines "d' \<equiv> snd (createTransaction lib e drw ok req d)"
    and "tid \<equiv> generateTxId (drawn_txId drw)"
  shows "\<exists>new. transactions d' = transactions d @ new
     \<and> (succeeded (fst (createTransaction lib e drw ok req d)) \<longrightarrow> new \<noteq> [])
     \<and> (new = []
        \<or> (\<exists>t. (new = [t] \<or> (\<exists>t'. new = [t, t'] \<and> txId t' = tid @ ''-receive''
                                  \<and> tx_type t' = Receive \<and> tx_status t' = Confirmed
                                  \<and> confirmations t' = 6
                                  \<and> confirmedAt t' = Some (drawn_now drw)
                                  \<and> tid @ ''-receive'' \<notin> set (map txId (transactions d))))
              \<and> txId t = tid \<and> tx_type t = Send \<and> tx_status t = Confirmed
              \<and> confirmations t = 6 \<and> confirmedAt t = Some (drawn_now drw)
              \<and> tid \<notin> set (map txId (transactions d))
              \<and> (succeeded (fst (createTransaction lib e drw ok req d)) \<longrightarrow>
                   res_transaction (projr (fst (createTransaction lib e drw ok req d))) = t)))"
proof (cases rule: createTransaction_writes [of lib e drw ok req d])
  case (early err)
  then show ?thesis by (simp add: d'_def)
next
  case (writes s sr)
  let ?doc = "send_record drw req s tid 10000 (balance s - (req_amount req + 10000))
                (sr_signature sr) (generateChainHash d (req_walletId req))"
  note run = writes(3) [folded tid_def]
  obtain r1 d1 where c: "Transaction_create lib e (drawn_now drw) (ok WriteSendRecord) ?doc d
      = (r1, d1)" by (cases "Transaction_create lib e (drawn_now drw) (ok WriteSendRecord) ?doc d")
  show ?thesis
  proof (cases r1)
    case (Inl err)
    with c have "d1 = d" by (simp add: Transaction_create_Inl)
    with run c Inl show ?thesis by (simp add: d'_def)
  next
    case (Inr t)
    with c have c': "Transaction_create lib e (drawn_now drw) (ok WriteSendRecord) ?doc d
      = (Inr t, d1)" by simp
    note f = Transaction_create_Inr [OF c']
    from f(2-6,8) have t: "txId t = tid \<and> tx_type t = Send \<and> tx_status t = Confirmed
        \<and> confirmations t = 6 \<and> confirmedAt t = Some (drawn_now drw)
        \<and> tid \<notin> set (map txId (transactions d))"
      by (simp add: send_record_def)
    obtain r2 d2 where u: "updateBalance lib e (drawn_now drw) (ok WriteSenderDebit)
        (req_walletId req) (req_amount req + 10000) Subtract d1 = (r2, d2)"
      by (cases "updateBalance lib e (drawn_now drw) (ok WriteSenderDebit)
        (req_walletId req) (req_amount req + 10000) Subtract d1")
    from u have t2: "transactions d2 = transactions d @ [t]"
      using updateBalance_transactions [OF u] f(1) by simp
    show ?thesis
    proof (cases r2)
      case (Inl err)
      with run c' u have "createTransaction lib e drw ok req d = (Inl err, d2)" by simp
      with t t2 show ?thesis by (simp add: d'_def)
    next
      case debit: (Inr s')
      obtain r3 d3 where cr: "credit_recipient lib e drw ok req s t tid d2 = (r3, d3)"
        by (cases "credit_recipient lib e drw ok req s t tid d2")
      from run c' u debit cr have d3: "d' = d3"
        by (auto simp add: d'_def split: sum.splits)
      from run c' u debit cr have res: "succeeded (fst (createTransaction lib e drw ok req d))
          \<longrightarrow> res_transaction (projr (fst (createTransaction lib e drw ok req d))) = t"
        by (auto split: sum.splits)
      from credit_recipient_transactions [OF cr] t2
      have "transactions d3 = transactions d @ [t]
          \<or> (\<exists>t'. transactions d3 = transactions d @ [t, t']
                \<and> txId t' = tid @ ''-receive'' \<and> tx_type t' = Receive
                \<and> tx_status t' = Confirmed \<and> confirmations t' = 6
                \<and> confirmedAt t' = Some (drawn_now drw)
                \<and> tid @ ''-receive'' \<notin> set (map txId (transactions d)))"
        by auto
      with d3 t res show ?thesis by auto
    qed
  qed
qed

lemma hex_encode_length: "length (hex_encode bs) = 2 * length bs"
  by (induction bs) (simp_all add: hex_encode_def hex_encode_byte_def)

subsection \<open>The send on concrete databases\<close>

lemmas send_eval = json_eval run_lib_def run_env_def run_draws_def run_send_def
  createTransaction_def findActiveWallet_def validateAddress_def getNetwork_def
  getNetworkName_def signing_key_def decryptPrivateKey_def getEncryptionKey_def hex_value_def
  generateTxId_run generateChainHash_def signTransaction_def stringify_transaction_data_def
  Transaction_create_def transaction_valid_def trim_def is_space_def
  transaction_generateIntegrityHash_def transaction_dataToHash_def send_record_def
  receive_record_def updateBalance_def findById_def wallet_save_def
  wallet_generateIntegrityHash_def wallet_hashInput_def wallet_dataToHash_def
  credit_recipient_def getWalletByAddress_def validatePrivateKeyForWallet_def
  validateKeyPair_def deriveKeyPair_def hot_db_def two_db_def cold_db_def hot_wallet_def
  peer_wallet_def cold_wallet_def balance_of_def accept_all_def reject_receive_record_def
  sent_tx_def received_tx_def hot_wallet_debited_def peer_wallet_credited_def
  two_db_debited_def two_db_done_def Let_def

lemma send_to_peer:
  "createTransaction run_lib run_env run_draws accept_all (run_send ''m0202'' 50000 None) two_db
   = (Inr \<lparr> res_transaction = sent_tx,
            res_message = ''Transaction completed successfully'',
            res_newBalance = 99940000 \<rparr>, two_db_done)"
  by (simp add: send_eval)

lemma send_to_peer_rejected:
  "createTransaction run_lib run_env run_draws reject_receive_record
     (run_send ''m0202'' 50000 None) two_db
   = (Inl StorageFailure, two_db_debited)"
  by (simp add: send_eval)

lemma send_foreign_ok:
  "succeeded (fst (createTransaction run_lib run_env run_draws accept_all
                     (run_send ''mzzz'' 50000 None) hot_db))"
  by (simp add: send_eval)

lemma cold_send_poor:
  "fst (createTransaction run_lib run_env run_draws accept_all
          (run_send ''m0202'' 100000000 (Some ''02'')) cold_db) = Inl InsufficientBalance"
  by (simp add: send_eval)

lemma cold_wrong_key:
  "findActiveWallet cold_db 1 1 = Some cold_wallet" "storageType cold_wallet = Cold"
  "\<not> validateKeyPair run_lib run_env ''02'' (publicAddress cold_wallet)"
  "validateAddress run_lib run_env ''m0202''"
  by (simp_all add: send_eval)

subsection \<open>Balances\<close>

text \<open>
  Claim C3. A successful send of \<open>A\<close> satoshis leaves the sender's balance lower by
  exactly \<open>A + 10000\<close>, returns that new balance and a transaction whose status is
  confirmed, and, when the destination address is that of a wallet of the system,
  leaves that wallet's balance higher by exactly \<open>A\<close>. The ids of the stored wallets
  are distinct, as the \<^verbatim>\<open>_id\<close> of a collection is. In particular a sender at
  100000000 who sends 50000 ends at 99940000.
\<close>

theorem send_balance_conservation:
  assumes ok: "succeeded (fst (createTransaction lib e drw storage_ok req d))"
    and ids: "distinct (map wallet_id (wallets d))"
  shows "\<exists>s res d'. createTransaction lib e drw storage_ok req d = (Inr res, d')
     \<and> findById d (req_walletId req) = Some s
     \<and> balance_of d' (req_walletId req) = Some (balance s - (req_amount req + 10000))
     \<and> res_newBalance res = balance s - (req_amount req + 10000)
     \<and> tx_status (res_transaction res) = Confirmed
     \<and> (\<forall>r. getWalletByAddress d (req_toAddress req) = Some r \<longrightarrow>
            balance_of d' (wallet_id r) = Some (balance r + req_amount req))"
proof -
  let ?i = "req_walletId req" and ?to = "req_toAddress req"
  let ?total = "req_amount req + 10000"
  from ok obtain s k and sr :: signature_result and sent d1 s' d2 d3 where
    s: "findActiveWallet d ?i (req_userId req) = Some s"
    and "validateAddress lib e ?to"
    and diff: "publicAddress s \<noteq> ?to"
    and "?total \<le> balance s"
    and "signing_key lib e s (req_privateKey req) = Inr k"
    and "signTransaction lib k
         \<lparr> td_txId = generateTxId (drawn_txId drw), td_fromAddress = publicAddress s,
           td_toAddress = ?to, td_amount = req_amount req,
           td_fee = 10000, td_timestamp = drawn_timestamp drw,
           td_previousTxHash = generateChainHash d ?i \<rparr> = Inr sr"
    and sent: "Transaction_create lib e (drawn_now drw) (storage_ok WriteSendRecord)
         (send_record drw req s (generateTxId (drawn_txId drw)) 10000
            (balance s - ?total) (sr_signature sr) (generateChainHash d ?i)) d = (Inr sent, d1)"
    and debit: "updateBalance lib e (drawn_now drw) (storage_ok WriteSenderDebit) ?i
         ?total Subtract d1 = (Inr s', d2)"
    and credit: "credit_recipient lib e drw storage_ok req s sent (generateTxId (drawn_txId drw)) d2
         = (Inr (), d3)"
    and run: "createTransaction lib e drw storage_ok req d
        = (Inr \<lparr> res_transaction = sent,
                 res_message = ''Transaction completed successfully'',
                 res_newBalance = balance s - ?total \<rparr>, d3)"
    by (rule createTransaction_succeeded)
  note deb = sender_debited [OF ids s sent debit]
  have status: "tx_status sent = Confirmed"
    using Transaction_create_Inr(3) [OF sent] by (simp add: send_record_def)
  have same_to: "getWalletByAddress d2 ?to = getWalletByAddress d ?to"
    using find_address_replace [of s' "wallets d" s ?to] deb(1,2,4,6) diff
    by (simp add: getWalletByAddress_def findById_def)
  have sender: "balance_of d3 ?i = Some (balance s - ?total)"
    and recipient: "\<forall>r. getWalletByAddress d ?to = Some r \<longrightarrow>
            balance_of d3 (wallet_id r) = Some (balance r + req_amount req)"
  proof -
    show "balance_of d3 ?i = Some (balance s - ?total)"
    proof (cases "getWalletByAddress d ?to")
      case None
      with same_to credit have "d3 = d2" by (simp add: credit_recipient_unknown)
      with deb(7,8) show ?thesis by (simp add: balance_of_def)
    next
      case (Some r)
      with same_to have known: "getWalletByAddress d2 ?to = Some r" by simp
      from credit_recipient_known [OF known credit] obtain rcv d2' r' where
        rcv: "Transaction_create lib e (drawn_now drw) (storage_ok WriteReceiveRecord)
          (receive_record drw req s r sent (generateTxId (drawn_txId drw))
             (generateChainHash d2 (wallet_id r))) d2 = (Inr rcv, d2')"
        and cred: "updateBalance lib e (drawn_now drw) (storage_ok WriteRecipientCredit)
          (wallet_id r) (req_amount req) Add d2' = (Inr r', d3)" by blast
      from Transaction_create_Inr(1) [OF rcv] have w2': "wallets d2' = wallets d2" by simp
      from cred obtain w2 where
        w2: "findById d2' (wallet_id r) = Some w2"
        and d3: "d3 = d2'\<lparr>wallets := replace_wallet r' (wallets d2')\<rparr>"
        and id: "wallet_id r' = wallet_id r" "wallet_id w2 = wallet_id r"
        and addr2: "publicAddress r' = publicAddress w2"
        and bal: "balance r' = (case Add of Subtract \<Rightarrow> balance w2 - req_amount req
                                | Add \<Rightarrow> balance w2 + req_amount req)"
        by (rule updateBalance_Inr)
      from Some have rmem: "r \<in> set (wallets d)" and raddr: "publicAddress r = ?to"
        using find_Some_mem [of "\<lambda>x. publicAddress x = ?to" "wallets d" r]
        by (simp_all add: getWalletByAddress_def)
      have "wallet_id r \<noteq> ?i"
      proof
        assume "wallet_id r = ?i"
        with ids rmem have "findById d ?i = Some r"
          using find_by_id_distinct [of "wallets d" r] by (simp add: findById_def)
        with deb(1) raddr diff show False by simp
      qed
      with id have "?i \<noteq> wallet_id r'" by simp
      then have "findById d3 ?i = findById d2 ?i"
        using d3 w2' find_replace_other [of ?i r' "wallets d2"] by (simp add: findById_def)
      with deb(7,8) show ?thesis by (simp add: balance_of_def)
    qed
  next
    show "\<forall>r. getWalletByAddress d ?to = Some r \<longrightarrow>
            balance_of d3 (wallet_id r) = Some (balance r + req_amount req)"
    proof (intro allI impI)
      fix r assume Some: "getWalletByAddress d ?to = Some r"
      with same_to have known: "getWalletByAddress d2 ?to = Some r" by simp
      from credit_recipient_known [OF known credit] obtain rcv d2' r' where
        rcv: "Transaction_create lib e (drawn_now drw) (storage_ok WriteReceiveRecord)
          (receive_record drw req s r sent (generateTxId (drawn_txId drw))
             (generateChainHash d2 (wallet_id r))) d2 = (Inr rcv, d2')"
        and cred: "updateBalance lib e (drawn_now drw) (storage_ok WriteRecipientCredit)
          (wallet_id r) (req_amount req) Add d2' = (Inr r', d3)" by blast
      from Transaction_create_Inr(1) [OF rcv] have w2': "wallets d2' = wallets d2" by simp
      from cred obtain w2 where
        w2: "findById d2' (wallet_id r) = Some w2"
        and d3: "d3 = d2'\<lparr>wallets := replace_wallet r' (wallets d2')\<rparr>"
        and id: "wallet_id r' = wallet_id r" "wallet_id w2 = wallet_id r"
        and addr2: "publicAddress r' = publicAddress w2"
        and bal: "balance r' = (case Add of Subtract \<Rightarrow> balance w2 - req_amount req
                                | Add \<Rightarrow> balance w2 + req_amount req)"
        by (rule updateBalance_Inr)
      from Some have rmem: "r \<in> set (wallets d)" and raddr: "publicAddress r = ?to"
        using find_Some_mem [of "\<lambda>x. publicAddress x = ?to" "wallets d" r]
        by (simp_all add: getWalletByAddress_def)
      from ids rmem have fr: "findById d (wallet_id r) = Some r"
        using find_by_id_distinct [of "wallets d" r] by (simp add: findById_def)
      have ne: "wallet_id r \<noteq> wallet_id s'"
      proof
        assume "wallet_id r = wallet_id s'"
        with fr deb(1,4) raddr diff show False by simp
      qed
      then have "findById d2 (wallet_id r) = Some r"
        using fr deb(2) find_replace_other [of "wallet_id r" s' "wallets d"]
        by (simp add: findById_def)
      with w2 w2' have "w2 = r" by (simp add: findById_def)
      with w2 id d3 bal have "findById d3 (wallet_id r) = Some r'" and "balance r' = balance r + req_amount req"
        using find_replace_same [of r' "wallets d2'" r] by (simp_all add: findById_def)
      then show "balance_of d3 (wallet_id r) = Some (balance r + req_amount req)"
        by (simp add: balance_of_def)
    qed
  qed
  from run deb(1) sender recipient status show ?thesis by simp
qed

theorem send_balance_conservation_witness:
  "succeeded (fst (createTransaction run_lib run_env run_draws accept_all
                     (run_send ''mzzz'' 50000 None) hot_db))
   \<and> distinct (map wallet_id (wallets hot_db))
   \<and> balance_of hot_db 1 = Some 100000000
   \<and> getWalletByAddress hot_db ''mzzz'' = None
   \<and> balance_of (snd (createTransaction run_lib run_env run_draws accept_all
                        (run_send ''mzzz'' 50000 None) hot_db)) 1 = Some 99940000
   \<and> (\<exists>res. fst (createTransaction run_lib run_env run_draws accept_all
                    (run_send ''mzzz'' 50000 None) hot_db) = Inr res
          \<and> tx_status (res_transaction res) = Confirmed)
   \<and> succeeded (fst (createTransaction run_lib run_env run_draws accept_all
                     (run_send ''m0202'' 50000 None) two_db))
   \<and> distinct (map wallet_id (wallets two_db))
   \<and> getWalletByAddress two_db ''m0202'' = Some peer_wallet
   \<and> balance peer_wallet = 100000000
   \<and> balance_of (snd (createTransaction run_lib run_env run_draws accept_all
                        (run_send ''m0202'' 50000 None) two_db)) 2 = Some 100050000"
proof -
  let ?foreign = "createTransaction run_lib run_env run_draws accept_all
                    (run_send ''mzzz'' 50000 None) hot_db"
  let ?peer = "createTransaction run_lib run_env run_draws accept_all
                 (run_send ''m0202'' 50000 None) two_db"
  have ok1: "succeeded (fst ?foreign)" by (rule send_foreign_ok)
  have ids1: "distinct (map wallet_id (wallets hot_db))"
    by (simp add: hot_db_def)
  have b1: "findById hot_db 1 = Some hot_wallet" "balance hot_wallet = 100000000"
    "getWalletByAddress hot_db ''mzzz'' = None"
    by (simp_all add: findById_def getWalletByAddress_def hot_db_def hot_wallet_def)
  have ok2: "succeeded (fst ?peer)" unfolding send_to_peer by simp
  have ids2: "distinct (map wallet_id (wallets two_db))"
    by (simp add: two_db_def hot_wallet_def peer_wallet_def)
  have b2: "getWalletByAddress two_db ''m0202'' = Some peer_wallet" "balance peer_wallet = 100000000"
    "wallet_id peer_wallet = 2"
    by (simp_all add: getWalletByAddress_def two_db_def hot_wallet_def peer_wallet_def)
  from send_balance_conservation [OF ok1 ids1] b1
  have part1: "balance_of (snd ?foreign) 1 = Some 99940000
      \<and> (\<exists>res. fst ?foreign = Inr res \<and> tx_status (res_transaction res) = Confirmed)"
    by (auto simp add: run_send_def)
  from send_balance_conservation [OF ok2 ids2] b2
  have part2: "balance_of (snd ?peer) 2 = Some 100050000"
    by (auto simp add: run_send_def)
  from ok1 ids1 b1 part1 ok2 ids2 b2 part2 show ?thesis
    by (simp add: balance_of_def)
qed

subsection \<open>Failure after the debit\<close>

text \<open>
  Claim C4, as the code has it. The send makes four separate writes, in the order
  send record, sender debit, mirrored receive record, recipient credit, and rolls
  nothing back. When a send to a known recipient would succeed on a storage that
  accepts every write, and the storage accepts the first two writes but rejects the
  mirrored receive record or the recipient credit, the send throws the storage
  failure, the sender stays debited by the amount and the fee with its send record
  stored, and the recipient is not credited.
\<close>

theorem send_failure_keeps_debit:
  assumes ids: "distinct (map wallet_id (wallets d))"
    and known: "getWalletByAddress d (req_toAddress req) = Some r"
    and would: "succeeded (fst (createTransaction lib e drw accept_all req d))"
    and first: "storage_ok WriteSendRecord" "storage_ok WriteSenderDebit"
    and fails: "\<not> storage_ok WriteReceiveRecord \<or> \<not> storage_ok WriteRecipientCredit"
  shows "fst (createTransaction lib e drw storage_ok req d) = Inl StorageFailure
       \<and> (\<exists>s. findById d (req_walletId req) = Some s
              \<and> balance_of (snd (createTransaction lib e drw storage_ok req d)) (req_walletId req)
                  = Some (balance s - (req_amount req + 10000)))
       \<and> balance_of (snd (createTransaction lib e drw storage_ok req d)) (wallet_id r)
           = Some (balance r)
       \<and> (\<exists>t \<in> set (transactions (snd (createTransaction lib e drw storage_ok req d))).
             txId t = generateTxId (drawn_txId drw) \<and> tx_type t = Send
             \<and> tx_wallet t = req_walletId req)"
proof -
  let ?i = "req_walletId req" and ?to = "req_toAddress req"
  let ?total = "req_amount req + 10000"
  let ?tid = "generateTxId (drawn_txId drw)"
  let ?now = "drawn_now drw"
  have "accept_all = (\<lambda>_. True)" by (simp add: accept_all_def fun_eq_iff)
  with would have "succeeded (fst (createTransaction lib e drw (\<lambda>_. True) req d))" by simp
  then obtain s k and sr :: signature_result and sent d1 s' d2 d3 where
    s: "findActiveWallet d ?i (req_userId req) = Some s"
    and va: "validateAddress lib e ?to"
    and diff: "publicAddress s \<noteq> ?to"
    and bal: "?total \<le> balance s"
    and k: "signing_key lib e s (req_privateKey req) = Inr k"
    and sr: "signTransaction lib k
         \<lparr> td_txId = ?tid, td_fromAddress = publicAddress s,
           td_toAddress = ?to, td_amount = req_amount req,
           td_fee = 10000, td_timestamp = drawn_timestamp drw,
           td_previousTxHash = generateChainHash d ?i \<rparr> = Inr sr"
    and sent: "Transaction_create lib e ?now True
         (send_record drw req s ?tid 10000 (balance s - ?total) (sr_signature sr)
            (generateChainHash d ?i)) d = (Inr sent, d1)"
    and debit: "updateBalance lib e ?now True ?i ?total Subtract d1 = (Inr s', d2)"
    and credit: "credit_recipient lib e drw (\<lambda>_. True) req s sent ?tid d2 = (Inr (), d3)"
    by (rule createTransaction_succeeded)
  note deb = sender_debited [OF ids s sent debit]
  have same_to: "getWalletByAddress d2 ?to = Some r"
    using find_address_replace [of s' "wallets d" s ?to] deb(1,2,4,6) diff known
    by (simp add: getWalletByAddress_def findById_def)
  from credit_recipient_known [OF same_to credit] obtain rcv d2' r' where
    rcv: "Transaction_create lib e ?now True
          (receive_record drw req s r sent ?tid (generateChainHash d2 (wallet_id r))) d2
          = (Inr rcv, d2')"
    and cred: "updateBalance lib e ?now True (wallet_id r) (req_amount req) Add d2' = (Inr r', d3)"
    by blast
  from Transaction_create_Inr(1) [OF rcv]
  have d2': "wallets d2' = wallets d2" "transactions d2' = transactions d2 @ [rcv]" by simp_all
  define d' where "d' = (if storage_ok WriteReceiveRecord then d2' else d2)"
  have credit_fails: "credit_recipient lib e drw storage_ok req s sent ?tid d2
      = (Inl StorageFailure, d')"
  proof (cases "storage_ok WriteReceiveRecord")
    case False
    with rcv same_to show ?thesis
      by (simp add: credit_recipient_def Transaction_create_rejected d'_def)
  next
    case True
    with fails have "\<not> storage_ok WriteRecipientCredit" by simp
    with True rcv cred same_to show ?thesis
      by (simp add: credit_recipient_def updateBalance_rejected d'_def)
  qed
  from s va diff bal k sr sent debit first credit_fails
  have run: "createTransaction lib e drw storage_ok req d = (Inl StorageFailure, d')"
    by (simp add: createTransaction_def Let_def)
  have w: "wallets d' = wallets d2" using d2' by (simp add: d'_def)
  have sender: "balance_of d' ?i = Some (balance s - ?total)"
    using deb(7,8) w by (simp add: balance_of_def findById_def)
  from known have rmem: "r \<in> set (wallets d)" and raddr: "publicAddress r = ?to"
    using find_Some_mem [of "\<lambda>x. publicAddress x = ?to" "wallets d" r]
    by (simp_all add: getWalletByAddress_def)
  from ids rmem have fr: "findById d (wallet_id r) = Some r"
    using find_by_id_distinct [of "wallets d" r] by (simp add: findById_def)
  have "wallet_id r \<noteq> wallet_id s'"
  proof
    assume "wallet_id r = wallet_id s'"
    with fr deb(1,4) raddr diff show False by simp
  qed
  then have "findById d2 (wallet_id r) = Some r"
    using fr deb(2) find_replace_other [of "wallet_id r" s' "wallets d"]
    by (simp add: findById_def)
  with w have recipient: "balance_of d' (wallet_id r) = Some (balance r)"
    by (simp add: balance_of_def findById_def)
  have "sent \<in> set (transactions d')"
    using deb(3) d2' by (simp add: d'_def)
  moreover have "txId sent = ?tid \<and> tx_type sent = Send \<and> tx_wallet sent = ?i"
    using Transaction_create_Inr(2,4,7) [OF sent] by (simp add: send_record_def)
  ultimately have present: "\<exists>t \<in> set (transactions d'). txId t = ?tid \<and> tx_type t = Send
      \<and> tx_wallet t = ?i" by blast
  from run deb(1) sender recipient present show ?thesis by simp
qed

theorem send_failure_keeps_debit_witness:
  "distinct (map wallet_id (wallets two_db))
   \<and> getWalletByAddress two_db ''m0202'' = Some peer_wallet
   \<and> succeeded (fst (createTransaction run_lib run_env run_draws accept_all
                        (run_send ''m0202'' 50000 None) two_db))
   \<and> reject_receive_record WriteSendRecord \<and> reject_receive_record WriteSenderDebit
   \<and> \<not> reject_receive_record WriteReceiveRecord
   \<and> fst (createTransaction run_lib run_env run_draws reject_receive_record
             (run_send ''m0202'' 50000 None) two_db) = Inl StorageFailure
   \<and> balance_of two_db 1 = Some 100000000
   \<and> balance_of (snd (createTransaction run_lib run_env run_draws reject_receive_record
                        (run_send ''m0202'' 50000 None) two_db)) 1 = Some 99940000
   \<and> balance_of (snd (createTransaction run_lib run_env run_draws reject_receive_record
                        (run_send ''m0202'' 50000 None) two_db)) 2 = Some 100000000"
proof -
  have ids: "distinct (map wallet_id (wallets two_db))"
    by (simp add: two_db_def hot_wallet_def peer_wallet_def)
  have known: "getWalletByAddress two_db (req_toAddress (run_send ''m0202'' 50000 None))
      = Some peer_wallet"
    by (simp add: getWalletByAddress_def two_db_def hot_wallet_def peer_wallet_def run_send_def)
  have would: "succeeded (fst (createTransaction run_lib run_env run_draws accept_all
      (run_send ''m0202'' 50000 None) two_db))" unfolding send_to_peer by simp
  have first: "reject_receive_record WriteSendRecord" "reject_receive_record WriteSenderDebit"
    by (simp_all add: reject_receive_record_def)
  have fails: "\<not> reject_receive_record WriteReceiveRecord
      \<or> \<not> reject_receive_record WriteRecipientCredit"
    by (simp add: reject_receive_record_def)
  have b: "findById two_db 1 = Some hot_wallet" "balance hot_wallet = 100000000"
    "balance peer_wallet = 100000000" "wallet_id peer_wallet = 2"
    by (simp_all add: findById_def two_db_def hot_wallet_def peer_wallet_def)
  from send_failure_keeps_debit [OF ids known would first fails] b
  have "fst (createTransaction run_lib run_env run_draws reject_receive_record
             (run_send ''m0202'' 50000 None) two_db) = Inl StorageFailure
   \<and> balance_of (snd (createTransaction run_lib run_env run_draws reject_receive_record
                        (run_send ''m0202'' 50000 None) two_db)) 1 = Some 99940000
   \<and> balance_of (snd (createTransaction run_lib run_env run_draws reject_receive_record
                        (run_send ''m0202'' 50000 None) two_db)) 2 = Some 100000000"
    by (auto simp add: run_send_def)
  with ids known would first fails b show ?thesis
    by (simp add: balance_of_def run_send_def reject_receive_record_def)
qed

text \<open>
  The claim as stated fails: the write of the mirrored receive record is rejected, the
  send throws, and the database it leaves has the sender debited and the send record
  stored.
\<close>

theorem send_not_atomic_counterexample:
  "getWalletByAddress two_db ''m0202'' = Some peer_wallet
   \<and> createTransaction run_lib run_env run_draws reject_receive_record
        (run_send ''m0202'' 50000 None) two_db = (Inl StorageFailure, two_db_debited)
   \<and> balance_of two_db 1 = Some 100000000
   \<and> balance_of two_db_debited 1 = Some 99940000
   \<and> balance_of two_db_debited 2 = Some 100000000
   \<and> transactions two_db = []
   \<and> transactions two_db_debited = [sent_tx]"
  unfolding send_to_peer_rejected
  by (simp add: balance_of_def findById_def getWalletByAddress_def two_db_def
      two_db_debited_def hot_wallet_def peer_wallet_def hot_wallet_debited_def)

subsection \<open>A cold wallet and a wrong key\<close>

text \<open>
  Claim C5, as the code has it. A send from an active cold wallet of the caller with a
  supplied private key that does not derive the wallet's address never succeeds and
  leaves the database as it was: no balance changes and no transaction record is
  created. The error is the invalid-private-key error when the checks that come first
  pass: the recipient address is valid and is not the sender's, the balance covers
  the amount and the fee, and the key is not the empty string.
\<close>

theorem cold_send_wrong_key:
  assumes sender: "findActiveWallet d (req_walletId req) (req_userId req) = Some s"
    and cold: "storageType s = Cold"
    and key: "req_privateKey req = Some k"
    and wrong: "\<not> validateKeyPair lib e k (publicAddress s)"
  shows "\<not> succeeded (fst (createTransaction lib e drw storage_ok req d))
       \<and> snd (createTransaction lib e drw storage_ok req d) = d
       \<and> (validateAddress lib e (req_toAddress req) \<and> publicAddress s \<noteq> req_toAddress req
            \<and> req_amount req + 10000 \<le> balance s \<and> k \<noteq> []
          \<longrightarrow> fst (createTransaction lib e drw storage_ok req d) = Inl InvalidPrivateKey)"
proof -
  from cold key wrong
  have "signing_key lib e s (req_privateKey req) = Inl InvalidPrivateKey
      \<or> signing_key lib e s (req_privateKey req) = Inl PrivateKeyRequired"
    and "k \<noteq> [] \<longrightarrow> signing_key lib e s (req_privateKey req) = Inl InvalidPrivateKey"
    by (simp_all add: signing_key_def validatePrivateKeyForWallet_def)
  with sender show ?thesis
    by (auto simp add: createTransaction_def Let_def)
qed

theorem cold_send_wrong_key_witness:
  "findActiveWallet cold_db 1 1 = Some cold_wallet
   \<and> storageType cold_wallet = Cold
   \<and> \<not> validateKeyPair run_lib run_env ''02'' (publicAddress cold_wallet)
   \<and> fst (createTransaction run_lib run_env run_draws accept_all
             (run_send ''m0202'' 50000 (Some ''02'')) cold_db) = Inl InvalidPrivateKey
   \<and> snd (createTransaction run_lib run_env run_draws accept_all
             (run_send ''m0202'' 50000 (Some ''02'')) cold_db) = cold_db"
proof -
  let ?req = "run_send ''m0202'' 50000 (Some ''02'')"
  have sender: "findActiveWallet cold_db (req_walletId ?req) (req_userId ?req) = Some cold_wallet"
    using cold_wrong_key(1) by (simp add: run_send_def)
  have key: "req_privateKey ?req = Some ''02''" by (simp add: run_send_def)
  have rest: "validateAddress run_lib run_env (req_toAddress ?req)"
    "publicAddress cold_wallet \<noteq> req_toAddress ?req"
    "req_amount ?req + 10000 \<le> balance cold_wallet" "''02'' \<noteq> []"
    using cold_wrong_key(4) by (simp_all add: run_send_def cold_wallet_def)
  from cold_send_wrong_key [OF sender cold_wrong_key(2) key cold_wrong_key(3),
      of run_draws accept_all] rest cold_wrong_key
  show ?thesis by simp
qed

text \<open>
  The claim as stated fails: the balance is checked before the key, so a send of more
  than the balance with a wrong key throws the insufficient-balance error.
\<close>

theorem cold_send_other_error_counterexample:
  "findActiveWallet cold_db 1 1 = Some cold_wallet
   \<and> storageType cold_wallet = Cold
   \<and> \<not> validateKeyPair run_lib run_env ''02'' (publicAddress cold_wallet)
   \<and> fst (createTransaction run_lib run_env run_draws accept_all
             (run_send ''m0202'' 100000000 (Some ''02'')) cold_db) = Inl InsufficientBalance"
  using cold_wrong_key cold_send_poor by simp

subsection \<open>Transaction ids\<close>

text \<open>
  Claim C9, as the code has it. Whatever the outcome of a send, the records it stores
  are none, a send record, or a send record and the mirrored receive record. The id of
  the send record is the hexadecimal rendering of the 32 bytes that
  \<^verbatim>\<open>generateTxId\<close> draws for this send: 256 bits, 64 digits. The mirrored receive
  record has no id of its own drawing: its id is the id of the send record followed by
  \<^verbatim>\<open>-receive\<close>. A successful send stores its send record and returns it. The ids
  stay pairwise distinct, since the unique index rejects a duplicate.
\<close>

theorem send_transaction_ids:
  assumes uniq: "distinct (map txId (transactions d))"
  shows "\<exists>new. transactions (snd (createTransaction lib e drw storage_ok req d))
               = transactions d @ new
     \<and> (new = []
        \<or> (\<exists>t. (new = [t]
                 \<or> (\<exists>rcv. new = [t, rcv] \<and> tx_type rcv = Receive
                          \<and> txId rcv = txId t @ ''-receive''))
              \<and> tx_type t = Send
              \<and> txId t = generateTxId (drawn_txId drw)
              \<and> txId t = hex_encode (randomBytes 32 (drawn_txId drw))
              \<and> length (randomBytes 32 (drawn_txId drw)) = 32
              \<and> length (txId t) = 64))
     \<and> (\<forall>res. fst (createTransaction lib e drw storage_ok req d) = Inr res \<longrightarrow>
            (\<exists>rest. new = res_transaction res # rest))
     \<and> distinct (map txId (transactions (snd (createTransaction lib e drw storage_ok req d))))"
proof -
  let ?run = "createTransaction lib e drw storage_ok req d"
  let ?tid = "generateTxId (drawn_txId drw)"
  have len: "length ?tid = 64"
    by (simp add: generateTxId_def hex_encode_length randomBytes_length)
  from createTransaction_transactions [of lib e drw storage_ok req d]
  obtain new where new: "transactions (snd ?run) = transactions d @ new"
    and ne: "succeeded (fst ?run) \<longrightarrow> new \<noteq> []"
    and shape: "new = []
        \<or> (\<exists>t. (new = [t] \<or> (\<exists>t'. new = [t, t'] \<and> txId t' = ?tid @ ''-receive''
                                  \<and> tx_type t' = Receive
                                  \<and> ?tid @ ''-receive'' \<notin> set (map txId (transactions d))))
              \<and> txId t = ?tid \<and> tx_type t = Send
              \<and> ?tid \<notin> set (map txId (transactions d))
              \<and> (succeeded (fst ?run) \<longrightarrow> res_transaction (projr (fst ?run)) = t))"
    by auto
  from shape consider (none) "new = []"
    | (one) t where "new = [t]" "txId t = ?tid" "tx_type t = Send"
        "?tid \<notin> set (map txId (transactions d))"
        "succeeded (fst ?run) \<longrightarrow> res_transaction (projr (fst ?run)) = t"
    | (two) t t' where "new = [t, t']" "txId t = ?tid" "tx_type t = Send"
        "?tid \<notin> set (map txId (transactions d))"
        "succeeded (fst ?run) \<longrightarrow> res_transaction (projr (fst ?run)) = t"
        "txId t' = ?tid @ ''-receive''" "tx_type t' = Receive"
        "?tid @ ''-receive'' \<notin> set (map txId (transactions d))"
    by blast
  then show ?thesis
  proof cases
    case none
    have ret: "\<forall>res. fst ?run = Inr res \<longrightarrow> (\<exists>rest. new = res_transaction res # rest)"
      using ne none by auto
    from new none uniq ret show ?thesis by simp
  next
    case one
    have ids: "map txId (transactions (snd ?run)) = map txId (transactions d) @ [?tid]"
      using new one(1,2) by simp
    have dist: "distinct (map txId (transactions (snd ?run)))"
      unfolding ids using uniq one(4) by simp
    have ret: "\<forall>res. fst ?run = Inr res \<longrightarrow> (\<exists>rest. new = res_transaction res # rest)"
      using one(1,5) by auto
    have t: "tx_type t = Send \<and> txId t = ?tid
        \<and> txId t = hex_encode (randomBytes 32 (drawn_txId drw))
        \<and> length (randomBytes 32 (drawn_txId drw)) = 32 \<and> length (txId t) = 64"
      using one(2,3) len by (simp add: generateTxId_def randomBytes_length)
    from new one(1) t ret dist show ?thesis by blast
  next
    case two
    have ids: "map txId (transactions (snd ?run))
        = map txId (transactions d) @ [?tid, ?tid @ ''-receive'']"
      using new two(1,2,6) by simp
    have dist: "distinct (map txId (transactions (snd ?run)))"
      unfolding ids using uniq two(4,8) by simp
    have ret: "\<forall>res. fst ?run = Inr res \<longrightarrow> (\<exists>rest. new = res_transaction res # rest)"
      using two(1,5) by auto
    have t: "tx_type t = Send \<and> txId t = ?tid
        \<and> txId t = hex_encode (randomBytes 32 (drawn_txId drw))
        \<and> length (randomBytes 32 (drawn_txId drw)) = 32 \<and> length (txId t) = 64"
      using two(2,3) len by (simp add: generateTxId_def randomBytes_length)
    have rcv: "tx_type t' = Receive \<and> txId t' = txId t @ ''-receive''"
      using two(2,6,7) by simp
    from new two(1) t rcv ret dist show ?thesis by blast
  qed
qed

theorem send_transaction_ids_witness:
  "distinct (map txId (transactions two_db))
   \<and> createTransaction run_lib run_env run_draws accept_all (run_send ''m0202'' 50000 None) two_db
       = (Inr \<lparr> res_transaction = sent_tx,
                res_message = ''Transaction completed successfully'',
                res_newBalance = 99940000 \<rparr>, two_db_done)
   \<and> (\<exists>rcv. transactions two_db_done = transactions two_db @ [sent_tx, rcv]
          \<and> tx_type rcv = Receive \<and> txId rcv = txId sent_tx @ ''-receive'')
   \<and> tx_type sent_tx = Send
   \<and> txId sent_tx = hex_encode (randomBytes 32 (drawn_txId run_draws))
   \<and> length (randomBytes 32 (drawn_txId run_draws)) = 32
   \<and> length (txId sent_tx) = 64
   \<and> distinct (map txId (transactions two_db_done))
   \<and> fst (createTransaction run_lib run_env run_draws reject_receive_record
            (run_send ''m0202'' 50000 None) two_db) = Inl StorageFailure
   \<and> transactions (snd (createTransaction run_lib run_env run_draws reject_receive_record
                           (run_send ''m0202'' 50000 None) two_db))
       = transactions two_db @ [sent_tx]"
proof -
  let ?run = "createTransaction run_lib run_env run_draws accept_all
                (run_send ''m0202'' 50000 None) two_db"
  have uniq: "distinct (map txId (transactions two_db))" by (simp add: two_db_def)
  have run: "?run = (Inr \<lparr> res_transaction = sent_tx,
                res_message = ''Transaction completed successfully'',
                res_newBalance = 99940000 \<rparr>, two_db_done)" by (rule send_to_peer)
  have stored: "transactions two_db = []" "transactions two_db_done = [sent_tx, received_tx]"
    by (simp_all add: two_db_def two_db_done_def)
  have rejected: "fst (createTransaction run_lib run_env run_draws reject_receive_record
            (run_send ''m0202'' 50000 None) two_db) = Inl StorageFailure"
    "transactions (snd (createTransaction run_lib run_env run_draws reject_receive_record
                           (run_send ''m0202'' 50000 None) two_db))
       = transactions two_db @ [sent_tx]"
    unfolding send_to_peer_rejected by (simp_all add: two_db_def two_db_debited_def)
  from send_transaction_ids [OF uniq, of run_lib run_env run_draws accept_all
      "run_send ''m0202'' 50000 None"]
  obtain new where new: "transactions (snd ?run) = transactions two_db @ new"
    and shape: "new = []
        \<or> (\<exists>t. (new = [t]
                 \<or> (\<exists>rcv. new = [t, rcv] \<and> tx_type rcv = Receive
                          \<and> txId rcv = txId t @ ''-receive''))
              \<and> tx_type t = Send
              \<and> txId t = generateTxId (drawn_txId run_draws)
              \<and> txId t = hex_encode (randomBytes 32 (drawn_txId run_draws))
              \<and> length (randomBytes 32 (drawn_txId run_draws)) = 32
              \<and> length (txId t) = 64)"
    and dist: "distinct (map txId (transactions (snd ?run)))"
    by blast
  from new run stored have "new = [sent_tx, received_tx]" by simp
  with shape have "tx_type received_tx = Receive \<and> txId received_tx = txId sent_tx @ ''-receive''
      \<and> tx_type sent_tx = Send
      \<and> txId sent_tx = hex_encode (randomBytes 32 (drawn_txId run_draws))
      \<and> length (randomBytes 32 (drawn_txId run_draws)) = 32
      \<and> length (txId sent_tx) = 64" by auto
  with uniq run stored dist rejected show ?thesis
    by (simp add: hex_encode_length randomBytes_length)
qed

text \<open>
  The claim as stated fails: the id of the mirrored receive record is derived from the
  id of the send record and is 72 characters long.
\<close>

theorem receive_id_derived_counterexample:
  "createTransaction run_lib run_env run_draws accept_all (run_send ''m0202'' 50000 None) two_db
     = (Inr \<lparr> res_transaction = sent_tx,
              res_message = ''Transaction completed successfully'',
              res_newBalance = 99940000 \<rparr>, two_db_done)
   \<and> transactions two_db_done = [sent_tx, received_tx]
   \<and> tx_type received_tx = Receive
   \<and> length (randomBytes 32 (drawn_txId run_draws)) = 32
   \<and> txId sent_tx = generateTxId (drawn_txId run_draws)
   \<and> txId received_tx = txId sent_tx @ ''-receive''
   \<and> length (txId received_tx) = 72"
  unfolding send_to_peer
  by (simp add: two_db_done_def sent_tx_def received_tx_def run_draws_def generateTxId_run
      randomBytes_length)

subsection \<open>Status of the records\<close>

text \<open>
  Claim C10. Whatever its outcome, a send adds to the stored transactions only records
  with status confirmed, six confirmations and the date of confirmation set; a
  successful send adds at least one. No pending record is stored.
\<close>

theorem send_records_confirmed:
  "\<exists>new. transactions (snd (createTransaction lib e drw storage_ok req d)) = transactions d @ new
     \<and> (\<forall>t \<in> set new. tx_status t = Confirmed \<and> confirmations t = 6
                          \<and> confirmedAt t = Some (drawn_now drw))
     \<and> (succeeded (fst (createTransaction lib e drw storage_ok req d)) \<longrightarrow> new \<noteq> [])"
  using createTransaction_transactions [of lib e drw storage_ok req d] by auto

theorem send_records_confirmed_witness:
  "succeeded (fst (createTransaction run_lib run_env run_draws accept_all
                     (run_send ''m0202'' 50000 None) two_db))
   \<and> transactions (snd (createTransaction run_lib run_env run_draws accept_all
                           (run_send ''m0202'' 50000 None) two_db))
       = transactions two_db @ [sent_tx, received_tx]
   \<and> tx_status sent_tx = Confirmed \<and> confirmations sent_tx = 6
   \<and> confirmedAt sent_tx = Some (drawn_now run_draws)
   \<and> tx_status received_tx = Confirmed \<and> confirmations received_tx = 6
   \<and> confirmedAt received_tx = Some (drawn_now run_draws)"
proof -
  let ?run = "createTransaction run_lib run_env run_draws accept_all
                (run_send ''m0202'' 50000 None) two_db"
  have ok: "succeeded (fst ?run)" unfolding send_to_peer by simp
  have txs: "transactions (snd ?run) = transactions two_db @ [sent_tx, received_tx]"
    unfolding send_to_peer by (simp add: two_db_def two_db_done_def)
  from send_records_confirmed [of run_lib run_env run_draws accept_all
      "run_send ''m0202'' 50000 None" two_db]
  obtain new where new: "transactions (snd ?run) = transactions two_db @ new"
    and conf: "\<forall>t \<in> set new. tx_status t = Confirmed \<and> confirmations t = 6
                          \<and> confirmedAt t = Some (drawn_now run_draws)"
    by blast
  from new txs have "new = [sent_tx, received_tx]" by simp
  with conf ok txs show ?thesis by simp
qed

end
